theory Spec2Isabelle
  imports Main "HOL-Library.Word"
begin

section \<open>Library functions of Go used by the builder\<close>

text \<open>
  Go strings are byte sequences; they are modelled as \<open>string\<close> (a list of 8-bit
  characters). Lengths and counters are Go \<open>int\<close>s, modelled as unbounded \<open>int\<close>:
  no slice or counter of this package can come near \<open>2^63\<close>.
\<close>

text \<open>A panic of the Go runtime or library: the call does not return.\<close>

datatype panic = NegativeRepeatCount

text \<open>
  \<open>strings.Split(s, sep)\<close> for a one-byte separator, the only kind this package uses
  (\<open>"."\<close> and \<open>"/"\<close>): the pieces between the separators, one more than there are
  separators.
\<close>

fun Split :: "string \<Rightarrow> char \<Rightarrow> string list" where
  "Split [] sep = [[]]"
| "Split (c # cs) sep =
     (if c = sep then [] # Split cs sep
      else (case Split cs sep of
              [] \<Rightarrow> [[c]]
            | w # ws \<Rightarrow> (c # w) # ws))"

text \<open>
  \<open>strings.Repeat(s, count)\<close> panics on a negative count and otherwise returns
  \<open>count\<close> copies of \<open>s\<close>. (Its second panic, on a result longer than an
  \<open>int\<close> can count, needs more values than a slice can hold.)
\<close>

definition Repeat :: "string \<Rightarrow> int \<Rightarrow> panic + string" where
  "Repeat s count =
     (if count < 0 then Inl NegativeRepeatCount
      else Inr (concat (replicate (nat count) s)))"

text \<open>
  \<open>strings.ToUpper\<close> on ASCII text: the letters \<open>a\<close> to \<open>z\<close> are raised and
  every other byte is kept. Go also raises letters outside ASCII and replaces bytes that
  are not UTF-8; the model says nothing about such operators, and every statement below
  that goes through \<open>Where\<close> or \<open>OrWhere\<close> does so with ASCII operators only. The
  general statements speak of the operator as stored in the criterion.
\<close>

definition upperByte :: "char \<Rightarrow> char" where
  "upperByte c =
     (let n = (of_char c :: nat)
      in if 97 \<le> n \<and> n \<le> 122 then char_of (n - 32) else c)"

definition ToUpper :: "string \<Rightarrow> string" where
  "ToUpper s = map upperByte s"

text \<open>The verb \<open>%d\<close> of \<open>fmt.Sprintf\<close>: a decimal numeral, with a sign when negative.\<close>

definition digit :: "nat \<Rightarrow> char" where
  "digit d = ''0123456789'' ! d"

fun decimal :: "nat \<Rightarrow> string" where
  "decimal n = (if n < 10 then [digit n] else decimal (n div 10) @ [digit (n mod 10)])"

declare decimal.simps [simp del]

definition fmt_d :: "int \<Rightarrow> string" where
  "fmt_d i = (if i < 0 then CHR ''-'' # decimal (nat (- i)) else decimal (nat i))"

section \<open>The data model\<close>

text \<open>\<open>type database int8\<close> with its four constants.\<close>

type_synonym database = "8 word"

definition MYSQL :: database where "MYSQL = 0"
definition SQLITE :: database where "SQLITE = 1"
definition POSTGRES :: database where "POSTGRES = 2"
definition ORACLE :: database where "ORACLE = 3"

text \<open>
  The query type and the sort order are unexported and only ever set to their named
  constants, so they are enumerations.
\<close>

datatype queryType = selectQry | insertQry | updateQry | deleteQry

datatype sortOrder = ascending | descending

definition validOperators :: string where
  "validOperators = ''=/>/</>=/<=/<>/IN/BETWEEN/LIKE''"

text \<open>
  The three anonymous structs of \<open>Builder\<close>; their fields carry a prefix because the
  source reuses the names \<open>table\<close>, \<open>column\<close> and \<open>values\<close>. The bound values are
  opaque (\<open>interface{}\<close>): a type parameter.
\<close>

record joinTable =
  j_joinType :: string
  j_table :: string
  j_column :: string
  j_fkey :: string

record 'v criterion =
  c_column :: string
  c_operator :: string
  c_values :: "'v list"
  c_or :: bool

record orderSpec =
  o_column :: string
  o_direction :: sortOrder

record 'v Builder =
  db :: database
  placeholderCount :: int
  queryType :: queryType
  table :: string
  joinTables :: "joinTable list"
  columns :: "string list"
  returningColumns :: "string list"
  "values" :: "'v list"
  returnValues :: "'v list"
  criteria :: "'v criterion list"
  orderBy :: "orderSpec list"
  limit :: nat
  offset :: nat

section \<open>Errors\<close>

datatype error =
    ErrBadColumnsValuesCombo int int string
  | ErrInvalidSqlOperator string string
  | ErrFirstCriterionIsOr
  | ErrDBEngineDoesNotSupportReturning

definition NewBadColumnsValuesComboError :: "int \<Rightarrow> int \<Rightarrow> error" where
  "NewBadColumnsValuesComboError columnCount valueCount =
     ErrBadColumnsValuesCombo columnCount valueCount
       (''columns count ('' @ fmt_d columnCount @ '') must be equal to values count (''
          @ fmt_d valueCount @ '')'')"

definition NewInvalidOperatorError :: "string \<Rightarrow> error" where
  "NewInvalidOperatorError operator =
     ErrInvalidSqlOperator operator
       (''operator '' @ [CHR 0x27] @ operator @ [CHR 0x27] @ '' is an invalid SQL operator'')"

section \<open>The configuration calls\<close>

text \<open>
  Every method mutates the builder behind the pointer and returns the pointer; the model
  returns the new builder. A constructor leaves every other field at Go's zero value.
\<close>

definition newBuilder :: "queryType \<Rightarrow> string \<Rightarrow> 'v Builder" where
  "newBuilder qt tableName =
     \<lparr> db = 0, placeholderCount = 0, queryType = qt, table = tableName,
       joinTables = [], columns = [], returningColumns = [], values = [],
       returnValues = [], criteria = [], orderBy = [], limit = 0, offset = 0 \<rparr>"

definition NewSelect :: "string \<Rightarrow> 'v Builder" where
  "NewSelect tableName = newBuilder selectQry tableName"

definition NewInsert :: "string \<Rightarrow> 'v Builder" where
  "NewInsert tableName = newBuilder insertQry tableName"

definition NewUpdate :: "string \<Rightarrow> 'v Builder" where
  "NewUpdate tableName = newBuilder updateQry tableName"

definition NewDelete :: "string \<Rightarrow> 'v Builder" where
  "NewDelete tableName = newBuilder deleteQry tableName"

definition ForDatabase :: "database \<Rightarrow> 'v Builder \<Rightarrow> 'v Builder" where
  "ForDatabase d qb = qb\<lparr>db := d\<rparr>"

definition ForMySQL :: "'v Builder \<Rightarrow> 'v Builder" where
  "ForMySQL qb = ForDatabase MYSQL qb"

definition ForPostgres :: "'v Builder \<Rightarrow> 'v Builder" where
  "ForPostgres qb = ForDatabase POSTGRES qb"

definition ForOracle :: "'v Builder \<Rightarrow> 'v Builder" where
  "ForOracle qb = ForDatabase ORACLE qb"

definition ForSQLite :: "'v Builder \<Rightarrow> 'v Builder" where
  "ForSQLite qb = ForDatabase SQLITE qb"

text \<open>
  \<open>Select\<close> and \<open>Returning\<close>: two separate \<open>if\<close>s on the number of pieces of the
  name, with no \<open>else\<close>.
\<close>

fun Select :: "string list \<Rightarrow> 'v Builder \<Rightarrow> 'v Builder" where
  "Select [] qb = qb"
| "Select (column # rest) qb =
     (let tableColumn = Split column (CHR ''.'');
          qb1 = (if length tableColumn = 1
                 then qb\<lparr>columns := columns qb @ [table qb @ ''.'' @ column]\<rparr> else qb);
          qb2 = (if length tableColumn = 2
                 then qb1\<lparr>columns := columns qb1 @ [column]\<rparr> else qb1)
      in Select rest qb2)"

fun Returning :: "string list \<Rightarrow> 'v Builder \<Rightarrow> 'v Builder" where
  "Returning [] qb = qb"
| "Returning (column # rest) qb =
     (let tableColumn = Split column (CHR ''.'');
          qb1 = (if length tableColumn = 1
                 then qb\<lparr>returningColumns := returningColumns qb @ [table qb @ ''.'' @ column]\<rparr>
                 else qb);
          qb2 = (if length tableColumn = 2
                 then qb1\<lparr>returningColumns := returningColumns qb1 @ [column]\<rparr> else qb1)
      in Returning rest qb2)"

definition Limit :: "nat \<Rightarrow> nat \<Rightarrow> 'v Builder \<Rightarrow> 'v Builder" where
  "Limit l off qb = qb\<lparr>limit := l, offset := off\<rparr>"

definition Set :: "string list \<Rightarrow> 'v Builder \<Rightarrow> 'v Builder" where
  "Set cols qb = qb\<lparr>columns := columns qb @ cols\<rparr>"

definition To :: "'v list \<Rightarrow> 'v Builder \<Rightarrow> 'v Builder" where
  "To vs qb = qb\<lparr>values := values qb @ vs\<rparr>"

definition Into :: "'v list \<Rightarrow> 'v Builder \<Rightarrow> 'v Builder" where
  "Into vs qb =
     (if queryType qb = selectQry then qb\<lparr>values := values qb @ vs\<rparr>
      else qb\<lparr>returnValues := returnValues qb @ vs\<rparr>)"

definition Join :: "string \<Rightarrow> string \<Rightarrow> string \<Rightarrow> string \<Rightarrow> 'v Builder \<Rightarrow> 'v Builder" where
  "Join joinType tbl column fkey qb =
     qb\<lparr>joinTables := joinTables qb @
          [\<lparr>j_joinType = joinType, j_table = tbl, j_column = column, j_fkey = fkey\<rparr>]\<rparr>"

definition Where :: "string \<Rightarrow> string \<Rightarrow> 'v list \<Rightarrow> 'v Builder \<Rightarrow> 'v Builder" where
  "Where column operator vs qb =
     qb\<lparr>criteria := criteria qb @
          [\<lparr>c_column = column, c_operator = ToUpper operator, c_values = vs, c_or = False\<rparr>]\<rparr>"

definition OrWhere :: "string \<Rightarrow> string \<Rightarrow> 'v list \<Rightarrow> 'v Builder \<Rightarrow> 'v Builder" where
  "OrWhere column operator vs qb =
     qb\<lparr>criteria := criteria qb @
          [\<lparr>c_column = column, c_operator = ToUpper operator, c_values = vs, c_or = True\<rparr>]\<rparr>"

definition OrderBy :: "string \<Rightarrow> 'v Builder \<Rightarrow> 'v Builder" where
  "OrderBy column qb =
     qb\<lparr>orderBy := orderBy qb @ [\<lparr>o_column = column, o_direction = ascending\<rparr>]\<rparr>"

definition OrderByDescending :: "string \<Rightarrow> 'v Builder \<Rightarrow> 'v Builder" where
  "OrderByDescending column qb =
     qb\<lparr>orderBy := orderBy qb @ [\<lparr>o_column = column, o_direction = descending\<rparr>]\<rparr>"

definition Values :: "'v Builder \<Rightarrow> 'v list" where
  "Values qb = values qb"

definition ReturningValues :: "'v Builder \<Rightarrow> 'v list" where
  "ReturningValues qb = returnValues qb"

fun criteriaLoop :: "'v criterion list \<Rightarrow> 'v list \<Rightarrow> 'v list" where
  "criteriaLoop [] vs = vs"
| "criteriaLoop (criterion # rest) vs = criteriaLoop rest (vs @ c_values criterion)"

definition Criteria :: "'v Builder \<Rightarrow> 'v list" where
  "Criteria qb = criteriaLoop (criteria qb) []"

section \<open>The placeholder allocator\<close>

text \<open>
  \<open>addPlaceholder\<close> increments the counter of the builder and returns the token made
  from the new count; the model returns the token and the builder.
\<close>

definition addPlaceholder :: "'v Builder \<Rightarrow> string \<times> 'v Builder" where
  "addPlaceholder qb =
     (let qb1 = qb\<lparr>placeholderCount := placeholderCount qb + 1\<rparr>
      in if db qb1 = POSTGRES then (''$'' @ fmt_d (placeholderCount qb1), qb1)
         else if db qb1 = ORACLE then ('':'' @ fmt_d (placeholderCount qb1), qb1)
         else (''?'', qb1))"

section \<open>The clause generators\<close>

text \<open>
  A Go function returning \<open>(string, error)\<close> returns a pair; \<open>None\<close> is the nil
  error. A generator that allocates placeholders also returns the builder, and one that
  can panic returns a sum with the panic on the left.
\<close>

text \<open>
  The loop \<open>for i, column := range cols { qry += column; if i < len(cols)-1 { qry += "," } }\<close>
  of the SELECT, RETURNING and INSERT clauses; \<open>n\<close> is \<open>len(cols)\<close>.
\<close>

fun columnsLoop :: "int \<Rightarrow> int \<Rightarrow> string list \<Rightarrow> string \<Rightarrow> string" where
  "columnsLoop n i [] qry = qry"
| "columnsLoop n i (column # rest) qry =
     (let qry1 = qry @ column;
          qry2 = (if i < n - 1 then qry1 @ '','' else qry1)
      in columnsLoop n (i + 1) rest qry2)"

definition generateSelectClause :: "'v Builder \<Rightarrow> string \<times> error option" where
  "generateSelectClause qb =
     (if int (length (columns qb)) \<noteq> int (length (values qb))
      then ([], Some (NewBadColumnsValuesComboError (int (length (columns qb)))
                                                    (int (length (values qb)))))
      else (columnsLoop (int (length (columns qb))) 0 (columns qb) ''SELECT '', None))"

definition generateReturningClause :: "'v Builder \<Rightarrow> string \<times> error option" where
  "generateReturningClause qb =
     (if int (length (returningColumns qb)) = 0 then ([], None)
      else if db qb \<noteq> POSTGRES \<and> db qb \<noteq> ORACLE
      then ([], Some ErrDBEngineDoesNotSupportReturning)
      else if int (length (returningColumns qb)) \<noteq> int (length (returnValues qb))
      then ([], Some (NewBadColumnsValuesComboError (int (length (returningColumns qb)))
                                                    (int (length (returnValues qb)))))
      else (columnsLoop (int (length (returningColumns qb))) 0 (returningColumns qb)
              '' RETURNING '', None))"

fun joinLoop :: "joinTable list \<Rightarrow> string \<Rightarrow> string" where
  "joinLoop [] qry = qry"
| "joinLoop (joinTable # rest) qry =
     joinLoop rest (qry @ '' '' @ j_joinType joinTable @ '' JOIN '' @ j_table joinTable @
                      '' ON '' @ j_column joinTable @ ''='' @ j_fkey joinTable)"

definition generateFromAndJoinClause :: "'v Builder \<Rightarrow> string" where
  "generateFromAndJoinClause qb = joinLoop (joinTables qb) ('' FROM '' @ table qb)"

fun operatorLoop :: "string \<Rightarrow> string list \<Rightarrow> bool" where
  "operatorLoop operator [] = False"
| "operatorLoop operator (o' # rest) = (if operator = o' then True else operatorLoop operator rest)"

definition operatorIsValid :: "string \<Rightarrow> bool" where
  "operatorIsValid operator = operatorLoop operator (Split validOperators (CHR ''/''))"

text \<open>
  The loop of \<open>generateWhereClause\<close> over the criteria from index \<open>ci\<close> on, with the
  text so far in \<open>qry\<close>. In the \<open>IN\<close> case Go evaluates the two calls of
  \<open>addPlaceholder\<close> from left to right, the second one as the argument of
  \<open>strings.Repeat\<close>, before \<open>strings.Repeat\<close> itself runs.
\<close>

fun whereLoop ::
  "'v Builder \<Rightarrow> int \<Rightarrow> 'v criterion list \<Rightarrow> string
     \<Rightarrow> panic + ((string \<times> error option) \<times> 'v Builder)" where
  "whereLoop qb ci [] qry = Inr ((qry, None), qb)"
| "whereLoop qb ci (criterion # rest) qry =
     (if ci = 0 \<and> c_or criterion then Inr (([], Some ErrFirstCriterionIsOr), qb)
      else
        let qry1 = (if ci \<noteq> 0 \<and> ci < int (length (criteria qb))
                    then (if c_or criterion then qry @ '' OR '' else qry @ '' AND '')
                    else qry)
        in if \<not> operatorIsValid (c_operator criterion)
           then Inr (([], Some (NewInvalidOperatorError (c_operator criterion))), qb)
           else
             let qry2 = qry1 @ c_column criterion;
                 qry3 = (if c_operator criterion = ''BETWEEN'' \<or> c_operator criterion = ''IN''
                            \<or> c_operator criterion = ''LIKE''
                         then qry2 @ '' '' else qry2);
                 qry4 = qry3 @ c_operator criterion
             in if c_operator criterion = ''LIKE'' then
                  (case addPlaceholder qb of (p, qb1) \<Rightarrow>
                     whereLoop qb1 (ci + 1) rest (qry4 @ '' '' @ p))
                else if c_operator criterion = ''BETWEEN'' then
                  (case addPlaceholder qb of (p1, qb1) \<Rightarrow>
                    (case addPlaceholder qb1 of (p2, qb2) \<Rightarrow>
                       whereLoop qb2 (ci + 1) rest (qry4 @ '' '' @ p1 @ '' AND '' @ p2)))
                else if c_operator criterion = ''IN'' then
                  (case addPlaceholder qb of (p1, qb1) \<Rightarrow>
                    (case addPlaceholder qb1 of (p2, qb2) \<Rightarrow>
                      (case Repeat ('','' @ p2) (int (length (c_values criterion)) - 1) of
                         Inl pnc \<Rightarrow> Inl pnc
                       | Inr r \<Rightarrow>
                           whereLoop qb2 (ci + 1) rest (qry4 @ '' ('' @ p1 @ r @ '')''))))
                else
                  (case addPlaceholder qb of (p, qb1) \<Rightarrow>
                     whereLoop qb1 (ci + 1) rest (qry4 @ p)))"

declare whereLoop.simps(2) [simp del]

definition generateWhereClause ::
  "'v Builder \<Rightarrow> panic + ((string \<times> error option) \<times> 'v Builder)" where
  "generateWhereClause qb =
     (if int (length (criteria qb)) = 0 then Inr (([], None), qb)
      else whereLoop qb 0 (criteria qb) '' WHERE '')"

fun orderByLoop :: "int \<Rightarrow> int \<Rightarrow> orderSpec list \<Rightarrow> string \<Rightarrow> string" where
  "orderByLoop n ci [] qry = qry"
| "orderByLoop n ci (order # rest) qry =
     (let qry1 = qry @ o_column order;
          qry2 = (if o_direction order = descending then qry1 @ '' DESC'' else qry1 @ '' ASC'');
          qry3 = (if ci < n - 1 then qry2 @ '','' else qry2)
      in orderByLoop n (ci + 1) rest qry3)"

definition generateOrderByClause :: "'v Builder \<Rightarrow> string" where
  "generateOrderByClause qb =
     (if int (length (orderBy qb)) = 0 then []
      else orderByLoop (int (length (orderBy qb))) 0 (orderBy qb) '' ORDER BY '')"

definition generateLimitClause :: "'v Builder \<Rightarrow> string" where
  "generateLimitClause qb =
     (if limit qb = 0 then []
      else let qry = '' LIMIT '' @ decimal (limit qb)
           in if offset qb > 0 then qry @ '','' @ decimal (offset qb) else qry)"

text \<open>The second loop of the INSERT clause: one allocator call for each value.\<close>

fun insertValuesLoop :: "'v Builder \<Rightarrow> int \<Rightarrow> 'v list \<Rightarrow> string \<Rightarrow> string \<times> 'v Builder" where
  "insertValuesLoop qb i [] qry = (qry, qb)"
| "insertValuesLoop qb i (v # rest) qry =
     (case addPlaceholder qb of (p, qb1) \<Rightarrow>
        let qry1 = qry @ p;
            qry2 = (if i < int (length (values qb1)) - 1 then qry1 @ '','' else qry1)
        in insertValuesLoop qb1 (i + 1) rest qry2)"

definition generateInsertClause :: "'v Builder \<Rightarrow> (string \<times> error option) \<times> 'v Builder" where
  "generateInsertClause qb =
     (if int (length (columns qb)) \<noteq> int (length (values qb))
      then (([], Some (NewBadColumnsValuesComboError (int (length (columns qb)))
                                                     (int (length (values qb))))), qb)
      else
        let qry = columnsLoop (int (length (columns qb))) 0 (columns qb)
                    (''INSERT INTO '' @ table qb @ '' ('');
            qry1 = qry @ '') VALUES (''
        in case insertValuesLoop qb 0 (values qb) qry1 of (qry2, qb1) \<Rightarrow>
             ((qry2 @ '')'', None), qb1))"

fun updateLoop :: "'v Builder \<Rightarrow> int \<Rightarrow> string list \<Rightarrow> string \<Rightarrow> string \<times> 'v Builder" where
  "updateLoop qb i [] qry = (qry, qb)"
| "updateLoop qb i (column # rest) qry =
     (case addPlaceholder qb of (p, qb1) \<Rightarrow>
        let qry1 = qry @ column @ ''='' @ p;
            qry2 = (if i < int (length (columns qb1)) - 1 then qry1 @ '','' else qry1)
        in updateLoop qb1 (i + 1) rest qry2)"

definition generateUpdateClause :: "'v Builder \<Rightarrow> (string \<times> error option) \<times> 'v Builder" where
  "generateUpdateClause qb =
     (if int (length (columns qb)) \<noteq> int (length (values qb))
      then (([], Some (NewBadColumnsValuesComboError (int (length (columns qb)))
                                                     (int (length (values qb))))), qb)
      else case updateLoop qb 0 (columns qb) (''UPDATE '' @ table qb @ '' SET '') of
             (qry, qb1) \<Rightarrow> ((qry, None), qb1))"

definition generateDeleteClause :: "'v Builder \<Rightarrow> string" where
  "generateDeleteClause qb = ''DELETE''"

section \<open>The statement generators\<close>

definition generateSelectQry ::
  "'v Builder \<Rightarrow> panic + ((string \<times> error option) \<times> 'v Builder)" where
  "generateSelectQry qb =
     (case generateSelectClause qb of
        (qry, Some err) \<Rightarrow> Inr (([], Some err), qb)
      | (qry, None) \<Rightarrow>
          let qry1 = qry @ generateFromAndJoinClause qb
          in (case generateWhereClause qb of
                Inl pnc \<Rightarrow> Inl pnc
              | Inr ((whereClause, Some err), qb1) \<Rightarrow> Inr (([], Some err), qb1)
              | Inr ((whereClause, None), qb1) \<Rightarrow>
                  let qry2 = qry1 @ whereClause;
                      qry3 = qry2 @ generateOrderByClause qb1;
                      qry4 = qry3 @ generateLimitClause qb1
                  in Inr ((qry4, None), qb1)))"

definition generateDeleteQry ::
  "'v Builder \<Rightarrow> panic + ((string \<times> error option) \<times> 'v Builder)" where
  "generateDeleteQry qb =
     (let qry = generateDeleteClause qb;
          qry1 = qry @ generateFromAndJoinClause qb
      in case generateWhereClause qb of
           Inl pnc \<Rightarrow> Inl pnc
         | Inr ((whereClause, Some err), qb1) \<Rightarrow> Inr (([], Some err), qb1)
         | Inr ((whereClause, None), qb1) \<Rightarrow>
             let qry2 = qry1 @ whereClause
             in (case generateReturningClause qb1 of
                   (returningClause, Some err) \<Rightarrow> Inr (([], Some err), qb1)
                 | (returningClause, None) \<Rightarrow> Inr ((qry2 @ returningClause, None), qb1)))"

definition generateUpdateQry ::
  "'v Builder \<Rightarrow> panic + ((string \<times> error option) \<times> 'v Builder)" where
  "generateUpdateQry qb =
     (case generateUpdateClause qb of
        ((qry, Some err), qb1) \<Rightarrow> Inr (([], Some err), qb1)
      | ((qry, None), qb1) \<Rightarrow>
          (case generateWhereClause qb1 of
             Inl pnc \<Rightarrow> Inl pnc
           | Inr ((whereClause, Some err), qb2) \<Rightarrow> Inr (([], Some err), qb2)
           | Inr ((whereClause, None), qb2) \<Rightarrow>
               let qry1 = qry @ whereClause
               in (case generateReturningClause qb2 of
                     (returningClause, Some err) \<Rightarrow> Inr (([], Some err), qb2)
                   | (returningClause, None) \<Rightarrow>
                       Inr ((qry1 @ returningClause, None), qb2))))"

definition generateInsertQry ::
  "'v Builder \<Rightarrow> panic + ((string \<times> error option) \<times> 'v Builder)" where
  "generateInsertQry qb =
     (case generateInsertClause qb of
        ((qry, Some err), qb1) \<Rightarrow> Inr (([], Some err), qb1)
      | ((qry, None), qb1) \<Rightarrow>
          (case generateReturningClause qb1 of
             (returningClause, Some err) \<Rightarrow> Inr (([], Some err), qb1)
           | (returningClause, None) \<Rightarrow> Inr ((qry @ returningClause, None), qb1)))"

definition GenerateQuery ::
  "'v Builder \<Rightarrow> panic + ((string \<times> error option) \<times> 'v Builder)" where
  "GenerateQuery qb =
     (case queryType qb of
        selectQry \<Rightarrow> generateSelectQry qb
      | insertQry \<Rightarrow> generateInsertQry qb
      | updateQry \<Rightarrow> generateUpdateQry qb
      | deleteQry \<Rightarrow> generateDeleteQry qb)"

section \<open>Notions used in the statements\<close>

text \<open>A list of names joined by single commas, as the clauses print column lists.\<close>

fun commaJoin :: "string list \<Rightarrow> string" where
  "commaJoin [] = []"
| "commaJoin [x] = x"
| "commaJoin (x # y # ys) = x @ '','' @ commaJoin (y # ys)"


text \<open>The placeholder token with number \<open>n\<close> in dialect \<open>d\<close>.\<close>

definition token :: "database \<Rightarrow> int \<Rightarrow> string" where
  "token d n =
     (if d = POSTGRES then ''$'' @ fmt_d n
      else if d = ORACLE then '':'' @ fmt_d n
      else ''?'')"

text \<open>The tokens numbered \<open>c + 1\<close> to \<open>c + k\<close>.\<close>

fun tokensFrom :: "database \<Rightarrow> int \<Rightarrow> nat \<Rightarrow> string list" where
  "tokensFrom d c 0 = []"
| "tokensFrom d c (Suc k) = token d (c + 1) # tokensFrom d (c + 1) k"

text \<open>The combinator token of a criterion.\<close>

definition combinator :: "'v criterion \<Rightarrow> string" where
  "combinator c = (if c_or c then '' OR '' else '' AND '')"

text \<open>
  The number of allocator calls the filter clause makes for a criterion, and the text it
  prints for the criterion itself when the counter stands at \<open>n\<close> before it.
\<close>

definition allocs :: "'v criterion \<Rightarrow> int" where
  "allocs c = (if c_operator c = ''BETWEEN'' \<or> c_operator c = ''IN'' then 2 else 1)"

definition criterionText :: "database \<Rightarrow> int \<Rightarrow> 'v criterion \<Rightarrow> string" where
  "criterionText d n c =
     (if c_operator c = ''LIKE'' then c_column c @ '' LIKE '' @ token d (n + 1)
      else if c_operator c = ''BETWEEN''
      then c_column c @ '' BETWEEN '' @ token d (n + 1) @ '' AND '' @ token d (n + 2)
      else if c_operator c = ''IN''
      then c_column c @ '' IN ('' @ token d (n + 1) @
             concat (replicate (length (c_values c) - 1) ('','' @ token d (n + 2))) @ '')''
      else c_column c @ c_operator c @ token d (n + 1))"

text \<open>The criteria after the first: each one behind its combinator token.\<close>

fun whereRest :: "database \<Rightarrow> int \<Rightarrow> 'v criterion list \<Rightarrow> string" where
  "whereRest d n [] = []"
| "whereRest d n (c # cs) = combinator c @ criterionText d n c @ whereRest d (n + allocs c) cs"

text \<open>
  A criterion the loop gets past: its operator is on the list, and an \<open>IN\<close> has at
  least one value.
\<close>

definition passes :: "'v criterion \<Rightarrow> bool" where
  "passes c \<longleftrightarrow> operatorIsValid (c_operator c) \<and> (c_operator c = ''IN'' \<longrightarrow> c_values c \<noteq> [])"

text \<open>
  A criterion that carries as many values as its operator prints placeholders: two for
  \<open>BETWEEN\<close>, one for \<open>LIKE\<close> and the comparisons. \<open>IN\<close> is left out.
\<close>

definition valuesMatch :: "'v criterion \<Rightarrow> bool" where
  "valuesMatch c \<longleftrightarrow>
     operatorIsValid (c_operator c) \<and> c_operator c \<noteq> ''IN'' \<and>
     length (c_values c) = (if c_operator c = ''BETWEEN'' then 2 else 1)"

text \<open>
  The filter text in which every bound value has the token of its own position: a
  criterion whose values are the bound values number \<open>n + 1\<close> onwards prints the tokens
  number \<open>n + 1\<close> onwards, and the next criterion starts after its last value.
\<close>

fun boundRest :: "database \<Rightarrow> int \<Rightarrow> 'v criterion list \<Rightarrow> string" where
  "boundRest d n [] = []"
| "boundRest d n (c # cs) =
     combinator c @ criterionText d n c @ boundRest d (n + int (length (c_values c))) cs"

fun boundWhere :: "database \<Rightarrow> int \<Rightarrow> 'v criterion list \<Rightarrow> string" where
  "boundWhere d n [] = []"
| "boundWhere d n (c # cs) =
     '' WHERE '' @ criterionText d n c @ boundRest d (n + int (length (c_values c))) cs"


text \<open>
  The bound values of a statement in the order its clauses are emitted: the values of
  the INSERT or SET clause, then the values of the filter. A SELECT and a DELETE
  statement have no mutation values (the \<open>values\<close> of a SELECT are targets, not
  parameters), an INSERT statement has no filter.
\<close>

definition boundValues :: "'v Builder \<Rightarrow> 'v list" where
  "boundValues qb =
     (case queryType qb of
        selectQry \<Rightarrow> Criteria qb
      | insertQry \<Rightarrow> Values qb
      | updateQry \<Rightarrow> Values qb @ Criteria qb
      | deleteQry \<Rightarrow> Criteria qb)"

text \<open>The text of a RETURNING clause that does not fail.\<close>

definition returningText :: "'v Builder \<Rightarrow> string" where
  "returningText qb =
     (if returningColumns qb = [] then []
      else '' RETURNING '' @ commaJoin (returningColumns qb))"

text \<open>The operators of the specification.\<close>

definition whitelist :: "string list" where
  "whitelist = [''='', ''>'', ''<'', ''>='', ''<='', ''<>'', ''IN'', ''BETWEEN'', ''LIKE'']"

section \<open>Facts about the library functions\<close>



lemma Split_validOperators:
  "Split validOperators (CHR ''/'') =
     [''='', ''>'', ''<'', ''>='', ''<='', ''<>'', ''IN'', ''BETWEEN'', ''LIKE'']"
  by (simp add: validOperators_def)

lemma Repeat_nonneg: "0 \<le> k \<Longrightarrow> Repeat s k = Inr (concat (replicate (nat k) s))"
  by (simp add: Repeat_def)

lemma Repeat_eval: "Repeat s 0 = Inr []" "Repeat s 1 = Inr s" "Repeat s 2 = Inr (s @ s)"
  by (simp_all add: Repeat_def eval_nat_numeral)

lemma ToUpper_ascii_examples:
  "ToUpper ''ins'' = ''INS''" "ToUpper ''in'' = ''IN''" "ToUpper ''!='' = ''!=''"
  "ToUpper ''='' = ''=''" "ToUpper ''IN'' = ''IN''" "ToUpper ''between'' = ''BETWEEN''"
  "ToUpper ''BETWEEN'' = ''BETWEEN''" "ToUpper ''LIKE'' = ''LIKE''"
  by code_simp+

lemma fmt_d_digits:
  "fmt_d 1 = ''1''" "fmt_d 2 = ''2''" "fmt_d 3 = ''3''" "fmt_d 4 = ''4''" "fmt_d 5 = ''5''"
  by (simp_all add: fmt_d_def decimal.simps digit_def)

lemma operatorIsValid_iff:
  "operatorIsValid operator \<longleftrightarrow>
     operator \<in> {''='', ''>'', ''<'', ''>='', ''<='', ''<>'', ''IN'', ''BETWEEN'', ''LIKE''}"
  unfolding operatorIsValid_def Split_validOperators by auto

lemma operatorIsValid_whitelist: "operatorIsValid operator \<longleftrightarrow> operator \<in> set whitelist"
  unfolding operatorIsValid_def Split_validOperators whitelist_def by auto

section \<open>The allocator and the mutation clauses\<close>

lemma addPlaceholder_eq:
  "addPlaceholder qb =
     (token (db qb) (placeholderCount qb + 1), qb\<lparr>placeholderCount := placeholderCount qb + 1\<rparr>)"
  by (simp add: addPlaceholder_def token_def Let_def)

lemma columnsLoop_commaJoin:
  "n = i + int (length cols) \<Longrightarrow> columnsLoop n i cols qry = qry @ commaJoin cols"
proof (induction cols arbitrary: i qry rule: commaJoin.induct)
  case 1
  then show ?case by simp
next
  case (2 x)
  then show ?case by simp
next
  case (3 x y ys)
  have "columnsLoop n (i + 1) (y # ys) (qry @ x @ '','') = (qry @ x @ '','') @ commaJoin (y # ys)"
    using "3.prems" by (intro "3.IH") simp
  with "3.prems" show ?case by simp
qed

lemma tokensFrom_nth: "i < k \<Longrightarrow> tokensFrom d n k ! i = token d (n + int i + 1)"
proof (induction k arbitrary: n i)
  case 0
  then show ?case by simp
next
  case (Suc k)
  show ?case
  proof (cases i)
    case 0
    then show ?thesis by simp
  next
    case (Suc j)
    with Suc.prems have "j < k" by simp
    from Suc.IH [OF this, of "n + 1"] Suc show ?thesis
      by (simp add: ac_simps)
  qed
qed

lemma updateLoop_eq:
  "int (length (columns qb)) = i + int (length cols) \<Longrightarrow>
   updateLoop qb i cols qry =
     (qry @ commaJoin (map2 (\<lambda>col tok. col @ ''='' @ tok) cols
                         (tokensFrom (db qb) (placeholderCount qb) (length cols))),
      qb\<lparr>placeholderCount := placeholderCount qb + int (length cols)\<rparr>)"
proof (induction cols arbitrary: qb i qry rule: induct_list012)
  case 1
  then show ?case by simp
next
  case (2 x)
  then show ?case by (simp add: addPlaceholder_eq)
next
  case (3 x y zs)
  let ?qb1 = "qb\<lparr>placeholderCount := placeholderCount qb + 1\<rparr>"
  have "int (length (columns ?qb1)) = (i + 1) + int (length (y # zs))"
    using "3.prems" by simp
  from "3.IH"(2) [OF this, of "qry @ x @ ''='' @ token (db qb) (placeholderCount qb + 1) @ '',''"]
  show ?case
    using "3.prems" by (simp add: addPlaceholder_eq ac_simps)
qed

lemma insertValuesLoop_eq:
  "int (length (values qb)) = i + int (length vs) \<Longrightarrow>
   insertValuesLoop qb i vs qry =
     (qry @ commaJoin (tokensFrom (db qb) (placeholderCount qb) (length vs)),
      qb\<lparr>placeholderCount := placeholderCount qb + int (length vs)\<rparr>)"
proof (induction vs arbitrary: qb i qry rule: induct_list012)
  case 1
  then show ?case by simp
next
  case (2 x)
  then show ?case by (simp add: addPlaceholder_eq)
next
  case (3 x y zs)
  let ?qb1 = "qb\<lparr>placeholderCount := placeholderCount qb + 1\<rparr>"
  have "int (length (values ?qb1)) = (i + 1) + int (length (y # zs))"
    using "3.prems" by simp
  from "3.IH"(2) [OF this, of "qry @ token (db qb) (placeholderCount qb + 1) @ '',''"]
  show ?case
    using "3.prems" by (simp add: addPlaceholder_eq ac_simps)
qed

lemma generateInsertClause_ok:
  "length (columns qb) = length (values qb) \<Longrightarrow>
   generateInsertClause qb =
     ((''INSERT INTO '' @ table qb @ '' ('' @ commaJoin (columns qb) @ '') VALUES ('' @
       commaJoin (tokensFrom (db qb) (placeholderCount qb) (length (values qb))) @ '')'', None),
      qb\<lparr>placeholderCount := placeholderCount qb + int (length (values qb))\<rparr>)"
  by (simp add: generateInsertClause_def columnsLoop_commaJoin insertValuesLoop_eq)

lemma generateUpdateClause_ok:
  "length (columns qb) = length (values qb) \<Longrightarrow>
   generateUpdateClause qb =
     ((''UPDATE '' @ table qb @ '' SET '' @
       commaJoin (map2 (\<lambda>col tok. col @ ''='' @ tok) (columns qb)
                    (tokensFrom (db qb) (placeholderCount qb) (length (values qb)))), None),
      qb\<lparr>placeholderCount := placeholderCount qb + int (length (values qb))\<rparr>)"
  by (simp add: generateUpdateClause_def updateLoop_eq)

lemma generateInsertClause_state:
  "generateInsertClause qb = (res, qb') \<Longrightarrow>
     qb' = qb\<lparr>placeholderCount := placeholderCount qb'\<rparr>"
  by (cases "length (columns qb) = length (values qb)")
     (auto simp add: generateInsertClause_ok, simp add: generateInsertClause_def)

lemma generateUpdateClause_state:
  "generateUpdateClause qb = (res, qb') \<Longrightarrow>
     qb' = qb\<lparr>placeholderCount := placeholderCount qb'\<rparr>"
  by (cases "length (columns qb) = length (values qb)")
     (auto simp add: generateUpdateClause_ok, simp add: generateUpdateClause_def)

lemma generateInsertClause_returningColumns:
  "generateInsertClause (qb\<lparr>returningColumns := r\<rparr>) =
     map_prod id (\<lambda>b. b\<lparr>returningColumns := r\<rparr>) (generateInsertClause qb)"
  by (cases "length (columns qb) = length (values qb)")
     (simp_all add: generateInsertClause_ok, simp add: generateInsertClause_def)

lemma generateUpdateClause_returningColumns:
  "generateUpdateClause (qb\<lparr>returningColumns := r\<rparr>) =
     map_prod id (\<lambda>b. b\<lparr>returningColumns := r\<rparr>) (generateUpdateClause qb)"
  by (cases "length (columns qb) = length (values qb)")
     (simp_all add: generateUpdateClause_ok, simp add: generateUpdateClause_def)

section \<open>The filter loop\<close>

text \<open>One round of the filter loop on a criterion that passes.\<close>

lemma whereLoop_step:
  assumes "passes c" and "\<not> (ci = 0 \<and> c_or c)" and "ci < int (length (criteria qb))"
  shows "whereLoop qb ci (c # rest) qry =
           whereLoop (qb\<lparr>placeholderCount := placeholderCount qb + allocs c\<rparr>) (ci + 1) rest
             (qry @ (if ci = 0 then [] else combinator c)
                  @ criterionText (db qb) (placeholderCount qb) c)"
proof -
  have valid: "operatorIsValid (c_operator c)"
    using assms(1) by (simp add: passes_def)
  consider (like) "c_operator c = ''LIKE''"
    | (between) "c_operator c = ''BETWEEN''"
    | (inop) "c_operator c = ''IN''"
    | (other) "c_operator c \<noteq> ''LIKE''" "c_operator c \<noteq> ''BETWEEN''" "c_operator c \<noteq> ''IN''"
    by blast
  then show ?thesis
  proof cases
    case like
    with assms(2,3) valid show ?thesis
      by (simp add: whereLoop.simps(2) addPlaceholder_eq criterionText_def allocs_def
            combinator_def ac_simps)
  next
    case between
    with assms(2,3) valid show ?thesis
      by (simp add: whereLoop.simps(2) addPlaceholder_eq criterionText_def allocs_def
            combinator_def ac_simps)
  next
    case inop
    with assms(1) have "c_values c \<noteq> []"
      by (simp add: passes_def)
    then have len: "0 \<le> int (length (c_values c)) - 1"
      by (cases "c_values c") simp_all
    have n: "nat (int (length (c_values c)) - 1) = length (c_values c) - 1"
      by simp
    from inop assms(2,3) valid show ?thesis
      by (simp add: whereLoop.simps(2) addPlaceholder_eq criterionText_def allocs_def
            combinator_def Repeat_nonneg [OF len] n ac_simps del: of_nat_diff)
  next
    case other
    with assms(2,3) valid show ?thesis
      by (simp add: whereLoop.simps(2) addPlaceholder_eq criterionText_def allocs_def
            combinator_def ac_simps)
  qed
qed

text \<open>The rounds of the filter loop over criteria that pass, none of them the first.\<close>

lemma whereLoop_prefix:
  assumes "\<forall>c\<in>set pre. passes c" and "0 < ci"
      and "ci + int (length pre) \<le> int (length (criteria qb))"
  shows "whereLoop qb ci (pre @ rest) qry =
           whereLoop (qb\<lparr>placeholderCount := placeholderCount qb + sum_list (map allocs pre)\<rparr>)
             (ci + int (length pre)) rest
             (qry @ whereRest (db qb) (placeholderCount qb) pre)"
  using assms
proof (induction pre arbitrary: qb ci qry)
  case Nil
  then show ?case by simp
next
  case (Cons c pre)
  let ?qb1 = "qb\<lparr>placeholderCount := placeholderCount qb + allocs c\<rparr>"
  have step: "whereLoop qb ci (c # pre @ rest) qry =
                whereLoop ?qb1 (ci + 1) (pre @ rest)
                  (qry @ combinator c @ criterionText (db qb) (placeholderCount qb) c)"
    using Cons.prems by (simp add: whereLoop_step)
  have ih: "whereLoop ?qb1 (ci + 1) (pre @ rest)
              (qry @ combinator c @ criterionText (db qb) (placeholderCount qb) c) =
            whereLoop (?qb1\<lparr>placeholderCount :=
                          placeholderCount ?qb1 + sum_list (map allocs pre)\<rparr>)
              (ci + 1 + int (length pre)) rest
              ((qry @ combinator c @ criterionText (db qb) (placeholderCount qb) c)
                 @ whereRest (db ?qb1) (placeholderCount ?qb1) pre)"
    using Cons.prems by (intro Cons.IH) simp_all
  show ?case
    unfolding append_Cons step ih by (simp add: ac_simps)
qed

text \<open>The filter loop from the start of the criteria up to a criterion \<open>c\<close>.\<close>

lemma whereLoop_reach:
  assumes "criteria qb = pre @ c # post" and "\<forall>p\<in>set pre. passes p"
      and "\<not> c_or (hd (criteria qb))"
  shows "generateWhereClause qb =
           whereLoop (qb\<lparr>placeholderCount := placeholderCount qb + sum_list (map allocs pre)\<rparr>)
             (int (length pre)) (c # post)
             (case pre of
                [] \<Rightarrow> '' WHERE ''
              | p # ps \<Rightarrow> '' WHERE '' @ criterionText (db qb) (placeholderCount qb) p @
                         whereRest (db qb) (placeholderCount qb + allocs p) ps)"
proof (cases pre)
  case Nil
  with assms show ?thesis
    by (simp add: generateWhereClause_def)
next
  case (Cons p ps)
  let ?qb1 = "qb\<lparr>placeholderCount := placeholderCount qb + allocs p\<rparr>"
  have first: "whereLoop qb 0 (p # ps @ c # post) '' WHERE '' =
                 whereLoop ?qb1 1 (ps @ c # post)
                   ('' WHERE '' @ criterionText (db qb) (placeholderCount qb) p)"
    using assms Cons whereLoop_step [of p 0 qb "ps @ c # post" "'' WHERE ''"] by simp
  have rest: "whereLoop ?qb1 1 (ps @ c # post)
                ('' WHERE '' @ criterionText (db qb) (placeholderCount qb) p) =
              whereLoop (?qb1\<lparr>placeholderCount :=
                            placeholderCount ?qb1 + sum_list (map allocs ps)\<rparr>)
                (1 + int (length ps)) (c # post)
                (('' WHERE '' @ criterionText (db qb) (placeholderCount qb) p) @
                   whereRest (db ?qb1) (placeholderCount ?qb1) ps)"
    using assms Cons by (intro whereLoop_prefix) simp_all
  show ?thesis
    using assms(1) Cons first rest
    by (simp add: generateWhereClause_def ac_simps)
qed

lemma whereLoop_first_or:
  "c_or c \<Longrightarrow> whereLoop qb 0 (c # cs) qry = Inr (([], Some ErrFirstCriterionIsOr), qb)"
  by (simp add: whereLoop.simps(2))

lemma generateWhereClause_first_or:
  "criteria qb = c # cs \<Longrightarrow> c_or c \<Longrightarrow>
   generateWhereClause qb = Inr (([], Some ErrFirstCriterionIsOr), qb)"
  by (simp add: generateWhereClause_def whereLoop_first_or)

lemma generateWhereClause_passes:
  assumes "criteria qb = c # cs" and "\<not> c_or c" and "\<forall>x\<in>set (c # cs). passes x"
  shows "generateWhereClause qb =
           Inr (('' WHERE '' @ criterionText (db qb) (placeholderCount qb) c @
                   whereRest (db qb) (placeholderCount qb + allocs c) cs, None),
                qb\<lparr>placeholderCount := placeholderCount qb + allocs c + sum_list (map allocs cs)\<rparr>)"
proof -
  let ?qb1 = "qb\<lparr>placeholderCount := placeholderCount qb + allocs c\<rparr>"
  have first: "whereLoop qb 0 (c # cs) '' WHERE '' =
                 whereLoop ?qb1 1 cs ('' WHERE '' @ criterionText (db qb) (placeholderCount qb) c)"
    using assms whereLoop_step [of c 0 qb cs "'' WHERE ''"] by simp
  have rest: "whereLoop ?qb1 1 (cs @ [])
                ('' WHERE '' @ criterionText (db qb) (placeholderCount qb) c) =
              whereLoop (?qb1\<lparr>placeholderCount :=
                            placeholderCount ?qb1 + sum_list (map allocs cs)\<rparr>)
                (1 + int (length cs)) []
                (('' WHERE '' @ criterionText (db qb) (placeholderCount qb) c) @
                   whereRest (db ?qb1) (placeholderCount ?qb1) cs)"
    using assms by (intro whereLoop_prefix) simp_all
  show ?thesis
    using assms(1) first rest by (simp add: generateWhereClause_def)
qed

lemma whereLoop_invalid_operator:
  "whereLoop qb ci cs qry = Inr ((q, Some (ErrInvalidSqlOperator operator m)), qb') \<Longrightarrow>
     \<not> operatorIsValid operator \<and> (\<exists>c\<in>set cs. c_operator c = operator)"
proof (induction cs arbitrary: qb ci qry)
  case Nil
  then show ?case by simp
next
  case (Cons c cs)
  from Cons.prems show ?case
    by (auto simp add: whereLoop.simps(2) Let_def NewInvalidOperatorError_def
          split: if_splits prod.splits sum.splits dest: Cons.IH)
qed

lemma generateWhereClause_invalid:
  assumes "criteria qb = pre @ c # post" and "\<forall>p\<in>set pre. passes p"
      and "\<not> c_or (hd (criteria qb))" and "\<not> operatorIsValid (c_operator c)"
  shows "generateWhereClause qb =
           Inr (([], Some (NewInvalidOperatorError (c_operator c))),
                qb\<lparr>placeholderCount := placeholderCount qb + sum_list (map allocs pre)\<rparr>)"
proof -
  have first: "pre = [] \<Longrightarrow> \<not> c_or c"
  proof -
    assume "pre = []"
    with assms(1) have "hd (criteria qb) = c" by simp
    with assms(3) show "\<not> c_or c" by simp
  qed
  show ?thesis
    unfolding whereLoop_reach [OF assms(1,2,3)]
    using assms(4) first by (simp add: whereLoop.simps(2) NewInvalidOperatorError_def)
qed

lemma whereLoop_state:
  "whereLoop qb ci cs qry = Inr (res, qb') \<Longrightarrow>
     qb' = qb\<lparr>placeholderCount := placeholderCount qb'\<rparr>"
proof (induction cs arbitrary: qb ci qry)
  case Nil
  then show ?case by simp
next
  case (Cons c cs)
  have keep: "qb' = qb\<lparr>placeholderCount := placeholderCount qb'\<rparr>"
    if "whereLoop (qb\<lparr>placeholderCount := n\<rparr>) cj cs q = Inr (res, qb')" for n cj q
  proof -
    from Cons.IH [OF that]
    have "qb' = qb\<lparr>placeholderCount := n\<rparr>\<lparr>placeholderCount := placeholderCount qb'\<rparr>" .
    then show ?thesis by simp
  qed
  from Cons.prems show ?case
    by (auto simp add: whereLoop.simps(2) [of _ _ c] addPlaceholder_eq Let_def
          split: if_splits sum.splits dest: keep)
qed

lemma generateWhereClause_state:
  "generateWhereClause qb = Inr (res, qb') \<Longrightarrow>
     qb' = qb\<lparr>placeholderCount := placeholderCount qb'\<rparr>"
  by (auto simp add: generateWhereClause_def split: if_splits dest: whereLoop_state)

lemma whereLoop_returningColumns:
  "whereLoop (qb\<lparr>returningColumns := r\<rparr>) ci cs qry =
     map_sum id (map_prod id (\<lambda>b. b\<lparr>returningColumns := r\<rparr>)) (whereLoop qb ci cs qry)"
proof (induction cs arbitrary: qb ci qry)
  case Nil
  then show ?case by simp
next
  case (Cons c cs)
  have upd: "qb\<lparr>returningColumns := r, placeholderCount := n\<rparr> =
             (qb\<lparr>placeholderCount := n\<rparr>)\<lparr>returningColumns := r\<rparr>" for n
    by simp
  show ?case
    by (simp add: whereLoop.simps(2) [of _ _ c] addPlaceholder_eq Let_def upd Cons.IH
          split: sum.splits del: Builder.update_convs)
qed

lemma generateWhereClause_returningColumns:
  "generateWhereClause (qb\<lparr>returningColumns := r\<rparr>) =
     map_sum id (map_prod id (\<lambda>b. b\<lparr>returningColumns := r\<rparr>)) (generateWhereClause qb)"
  by (simp add: generateWhereClause_def whereLoop_returningColumns)

lemma criteriaLoop_eq: "criteriaLoop cs vs = vs @ concat (map c_values cs)"
  by (induction cs arbitrary: vs) simp_all

lemma Criteria_eq: "Criteria qb = concat (map c_values (criteria qb))"
  by (simp add: Criteria_def criteriaLoop_eq)

lemma valuesMatch_passes: "valuesMatch c \<Longrightarrow> passes c"
  by (simp add: valuesMatch_def passes_def)

lemma valuesMatch_allocs: "valuesMatch c \<Longrightarrow> allocs c = int (length (c_values c))"
  by (simp add: valuesMatch_def allocs_def)

lemma whereRest_boundRest:
  "\<forall>x\<in>set cs. valuesMatch x \<Longrightarrow> whereRest d n cs = boundRest d n cs"
  by (induction cs arbitrary: n) (simp_all add: valuesMatch_allocs)

lemma sum_allocs:
  "\<forall>x\<in>set cs. valuesMatch x \<Longrightarrow>
   sum_list (map allocs cs) = int (length (concat (map c_values cs)))"
  by (induction cs) (simp_all add: valuesMatch_allocs)

lemma generateWhereClause_bound:
  assumes "\<forall>x\<in>set (criteria qb). valuesMatch x"
      and "criteria qb \<noteq> [] \<longrightarrow> \<not> c_or (hd (criteria qb))"
  shows "generateWhereClause qb =
           Inr ((boundWhere (db qb) (placeholderCount qb) (criteria qb), None),
                qb\<lparr>placeholderCount := placeholderCount qb + int (length (Criteria qb))\<rparr>)"
proof (cases "criteria qb")
  case Nil
  then show ?thesis
    by (simp add: generateWhereClause_def Criteria_eq)
next
  case (Cons c cs)
  with assms have nor: "\<not> c_or c" and all: "\<forall>x\<in>set (c # cs). valuesMatch x"
    by simp_all
  then have pass: "\<forall>x\<in>set (c # cs). passes x"
    by (simp add: valuesMatch_passes)
  from all have c: "valuesMatch c" and cs: "\<forall>x\<in>set cs. valuesMatch x"
    by simp_all
  show ?thesis
    unfolding generateWhereClause_passes [OF Cons nor pass]
    using Cons
    by (simp add: Criteria_eq whereRest_boundRest [OF cs] sum_allocs [OF cs]
          valuesMatch_allocs [OF c])
qed

section \<open>The RETURNING clause inside a statement\<close>

lemma generateReturningClause_counter:
  "generateReturningClause (qb\<lparr>placeholderCount := n\<rparr>) = generateReturningClause qb"
  by (simp add: generateReturningClause_def)

text \<open>
  A statement with returning columns, against the same statement without them: the
  clauses before RETURNING do the same, and the RETURNING clause decides the result.
\<close>

lemma GenerateQuery_returning:
  assumes kind: "queryType qb \<noteq> selectQry"
      and gen: "GenerateQuery (qb\<lparr>returningColumns := []\<rparr>) = Inr ((q, None), qb1)"
  shows "GenerateQuery qb =
           (case generateReturningClause qb of
              (r, Some e) \<Rightarrow> Inr (([], Some e), qb1\<lparr>returningColumns := returningColumns qb\<rparr>)
            | (r, None) \<Rightarrow> Inr ((q @ r, None), qb1\<lparr>returningColumns := returningColumns qb\<rparr>))"
proof -
  let ?qb0 = "qb\<lparr>returningColumns := []\<rparr>"
  let ?put = "\<lambda>b :: 'a Builder. b\<lparr>returningColumns := returningColumns qb\<rparr>"
  have restore: "?put ?qb0 = qb"
    by simp
  have ret: "generateReturningClause (?put b) = generateReturningClause qb"
    if "b = ?qb0\<lparr>placeholderCount := placeholderCount b\<rparr>" for b
  proof -
    have "?put b = qb\<lparr>placeholderCount := placeholderCount b\<rparr>"
      by (subst that) simp
    then show ?thesis
      by (simp add: generateReturningClause_counter)
  qed
  have none: "generateReturningClause b = ([], None)"
    if "b = ?qb0\<lparr>placeholderCount := placeholderCount b\<rparr>" for b
    by (subst that) (simp add: generateReturningClause_def)
  have wh: "generateWhereClause (?put b) =
              map_sum id (map_prod id ?put) (generateWhereClause b)" for b
    by (rule generateWhereClause_returningColumns)
  show ?thesis
  proof (cases "queryType qb")
    case selectQry
    with kind show ?thesis by simp
  next
    case insertQry
    obtain res b where i0: "generateInsertClause ?qb0 = (res, b)"
      by (cases "generateInsertClause ?qb0")
    note st = generateInsertClause_state [OF i0]
    have i: "generateInsertClause qb = (res, ?put b)"
      using generateInsertClause_returningColumns [where qb = ?qb0 and r = "returningColumns qb"] i0
      by (simp only: restore) simp
    from gen insertQry i0 none [OF st] have "res = (q, None)" and "b = qb1"
      by (auto simp add: GenerateQuery_def generateInsertQry_def
            split: prod.splits option.splits)
    with insertQry i ret [OF st] show ?thesis
      by (simp add: GenerateQuery_def generateInsertQry_def split: prod.splits option.splits)
  next
    case updateQry
    obtain res b where u0: "generateUpdateClause ?qb0 = (res, b)"
      by (cases "generateUpdateClause ?qb0")
    note st = generateUpdateClause_state [OF u0]
    have u: "generateUpdateClause qb = (res, ?put b)"
      using generateUpdateClause_returningColumns [where qb = ?qb0 and r = "returningColumns qb"] u0
      by (simp only: restore) simp
    from gen updateQry u0 obtain qu w where res: "res = (qu, None)"
      and w0: "generateWhereClause b = Inr ((w, None), qb1)"
      and q: "q = qu @ w @ fst (generateReturningClause qb1)"
      and r0: "snd (generateReturningClause qb1) = None"
      by (auto simp add: GenerateQuery_def generateUpdateQry_def Let_def
            split: prod.splits option.splits sum.splits)
    have st1: "qb1 = ?qb0\<lparr>placeholderCount := placeholderCount qb1\<rparr>"
      using generateWhereClause_state [OF w0] by (subst (asm) st) simp
    have w: "generateWhereClause (?put b) = Inr ((w, None), ?put qb1)"
      unfolding wh w0 by simp
    from q none [OF st1] have q': "q = qu @ w"
      by simp
    from updateQry u res w q' ret [OF st1] show ?thesis
      by (simp add: GenerateQuery_def generateUpdateQry_def Let_def
            split: prod.splits option.splits)
  next
    case deleteQry
    from gen deleteQry obtain w where w0: "generateWhereClause ?qb0 = Inr ((w, None), qb1)"
      and q: "q = generateDeleteClause ?qb0 @ generateFromAndJoinClause ?qb0 @ w @
                  fst (generateReturningClause qb1)"
      by (auto simp add: GenerateQuery_def generateDeleteQry_def Let_def
            split: prod.splits option.splits sum.splits)
    have st1: "qb1 = ?qb0\<lparr>placeholderCount := placeholderCount qb1\<rparr>"
      by (rule generateWhereClause_state [OF w0])
    have w: "generateWhereClause qb = Inr ((w, None), ?put qb1)"
      using wh [of ?qb0] w0 by (simp only: restore) simp
    from q none [OF st1]
    have q': "q = generateDeleteClause qb @ generateFromAndJoinClause qb @ w"
      by (simp add: generateDeleteClause_def generateFromAndJoinClause_def)
    from deleteQry w q' ret [OF st1] show ?thesis
      by (simp add: GenerateQuery_def generateDeleteQry_def Let_def
            split: prod.splits option.splits)
  qed
qed

section \<open>The clauses of a statement that does not fail\<close>

lemma generateReturningClause_ok:
  assumes "returningColumns qb = [] \<or>
           (db qb = POSTGRES \<or> db qb = ORACLE) \<and>
           length (returningColumns qb) = length (returnValues qb)"
  shows "generateReturningClause (qb\<lparr>placeholderCount := n\<rparr>) = (returningText qb, None)"
  using assms
  by (auto simp add: generateReturningClause_def returningText_def columnsLoop_commaJoin)

lemma generateSelectClause_ok:
  "length (columns qb) = length (values qb) \<Longrightarrow>
   generateSelectClause qb = (''SELECT '' @ commaJoin (columns qb), None)"
  by (simp add: generateSelectClause_def columnsLoop_commaJoin)

lemma generateOrderByClause_counter:
  "generateOrderByClause (qb\<lparr>placeholderCount := n\<rparr>) = generateOrderByClause qb"
  by (simp add: generateOrderByClause_def)

lemma generateLimitClause_counter:
  "generateLimitClause (qb\<lparr>placeholderCount := n\<rparr>) = generateLimitClause qb"
  by (simp add: generateLimitClause_def Let_def)

lemma generateWhereClause_bound_at:
  assumes "\<forall>x\<in>set (criteria qb). valuesMatch x"
      and "criteria qb \<noteq> [] \<longrightarrow> \<not> c_or (hd (criteria qb))"
  shows "generateWhereClause (qb\<lparr>placeholderCount := n\<rparr>) =
           Inr ((boundWhere (db qb) n (criteria qb), None),
                qb\<lparr>placeholderCount := n + int (length (Criteria qb))\<rparr>)"
  using generateWhereClause_bound [of "qb\<lparr>placeholderCount := n\<rparr>"] assms
  by (simp add: Criteria_def)

section \<open>The placeholders of IN\<close>

text \<open>
  Claim C1, evaluated. The \<open>IN\<close> case calls the allocator twice whatever the number of
  values, and repeats the second token: for Postgres three values give
  \<open>IN ($1,$2,$2)\<close> and one value gives \<open>IN ($1)\<close>, and the counter ends at 2 both
  times.
\<close>

theorem in_postgres_repeats_second_token:
  "GenerateQuery (Where ''c'' ''in'' [7, 8, 9 :: int] (ForPostgres (NewDelete ''t''))) =
     Inr ((''DELETE FROM t WHERE c IN ($1,$2,$2)'', None),
          (Where ''c'' ''in'' [7, 8, 9] (ForPostgres (NewDelete ''t'')))\<lparr>placeholderCount := 2\<rparr>) \<and>
   GenerateQuery (Where ''c'' ''in'' [7 :: int] (ForPostgres (NewDelete ''t''))) =
     Inr ((''DELETE FROM t WHERE c IN ($1)'', None),
          (Where ''c'' ''in'' [7] (ForPostgres (NewDelete ''t'')))\<lparr>placeholderCount := 2\<rparr>)"
  by (simp add: GenerateQuery_def generateDeleteQry_def generateWhereClause_def
        generateDeleteClause_def generateFromAndJoinClause_def generateReturningClause_def
        whereLoop.simps(2) Where_def NewDelete_def newBuilder_def ForPostgres_def
        ForDatabase_def ToUpper_ascii_examples operatorIsValid_iff addPlaceholder_def
        Repeat_eval fmt_d_def decimal.simps digit_def POSTGRES_def ORACLE_def Let_def)

section \<open>Placeholders and bound values\<close>

text \<open>
  Claim C2, as amended. Take a call in which no clause fails: the columns and values
  match in number (SELECT, INSERT, UPDATE), the first criterion is not an OR (SELECT,
  UPDATE, DELETE), and the returning columns, if there are any, go with Postgres or
  Oracle and with as many return values (INSERT, UPDATE, DELETE). Let every criterion of
  a statement with a filter have an operator of the specification other than \<open>IN\<close> and as
  many values as that operator prints placeholders, two for \<open>BETWEEN\<close> and one
  otherwise. Then, with the counter of the builder at \<open>n\<close> when the call starts, the
  text returned holds for the bound value number \<open>i\<close> the token number \<open>n + i\<close>
  (\<open>$\<close> and the number for Postgres, \<open>:\<close> and the number for Oracle, a bare \<open>?\<close>
  for any other dialect), the bound values counted in the order of the clauses, the
  values of the INSERT or SET clause before those of the filter, and the counter ends at
  \<open>n\<close> plus the number of bound values. For a builder fresh from its constructor
  \<open>n\<close> is 0.
\<close>

theorem placeholders_follow_values:
  assumes arity: "queryType qb \<noteq> deleteQry \<longrightarrow> length (columns qb) = length (values qb)"
      and filt: "queryType qb \<noteq> insertQry \<longrightarrow>
                   (\<forall>x\<in>set (criteria qb). valuesMatch x) \<and>
                   (criteria qb \<noteq> [] \<longrightarrow> \<not> c_or (hd (criteria qb)))"
      and ret: "queryType qb \<noteq> selectQry \<longrightarrow>
                  returningColumns qb = [] \<or>
                  (db qb = POSTGRES \<or> db qb = ORACLE) \<and>
                  length (returningColumns qb) = length (returnValues qb)"
  shows "GenerateQuery qb =
           Inr (((case queryType qb of
                    selectQry \<Rightarrow>
                      ''SELECT '' @ commaJoin (columns qb) @ generateFromAndJoinClause qb @
                      boundWhere (db qb) (placeholderCount qb) (criteria qb) @
                      generateOrderByClause qb @ generateLimitClause qb
                  | insertQry \<Rightarrow>
                      ''INSERT INTO '' @ table qb @ '' ('' @ commaJoin (columns qb) @
                      '') VALUES ('' @
                      commaJoin (tokensFrom (db qb) (placeholderCount qb) (length (Values qb))) @
                      '')'' @ returningText qb
                  | updateQry \<Rightarrow>
                      ''UPDATE '' @ table qb @ '' SET '' @
                      commaJoin (map2 (\<lambda>col tok. col @ ''='' @ tok) (columns qb)
                                   (tokensFrom (db qb) (placeholderCount qb) (length (Values qb)))) @
                      boundWhere (db qb) (placeholderCount qb + int (length (Values qb)))
                        (criteria qb) @
                      returningText qb
                  | deleteQry \<Rightarrow>
                      ''DELETE'' @ generateFromAndJoinClause qb @
                      boundWhere (db qb) (placeholderCount qb) (criteria qb) @
                      returningText qb), None),
                qb\<lparr>placeholderCount := placeholderCount qb + int (length (boundValues qb))\<rparr>) \<and>
         (i < k \<longrightarrow> tokensFrom d n k ! i = token d (n + int i + 1)) \<and>
         token POSTGRES n = ''$'' @ fmt_d n \<and> token ORACLE n = '':'' @ fmt_d n \<and>
         (d \<noteq> POSTGRES \<and> d \<noteq> ORACLE \<longrightarrow> token d n = ''?'')"
proof -
  have tok: "(i < k \<longrightarrow> tokensFrom d n k ! i = token d (n + int i + 1)) \<and>
         token POSTGRES n = ''$'' @ fmt_d n \<and> token ORACLE n = '':'' @ fmt_d n \<and>
         (d \<noteq> POSTGRES \<and> d \<noteq> ORACLE \<longrightarrow> token d n = ''?'')"
    by (simp add: tokensFrom_nth token_def POSTGRES_def ORACLE_def)
  have upd: "qb\<lparr>placeholderCount := placeholderCount qb\<rparr> = qb"
    by simp
  have gen: "GenerateQuery qb =
           Inr (((case queryType qb of
                    selectQry \<Rightarrow>
                      ''SELECT '' @ commaJoin (columns qb) @ generateFromAndJoinClause qb @
                      boundWhere (db qb) (placeholderCount qb) (criteria qb) @
                      generateOrderByClause qb @ generateLimitClause qb
                  | insertQry \<Rightarrow>
                      ''INSERT INTO '' @ table qb @ '' ('' @ commaJoin (columns qb) @
                      '') VALUES ('' @
                      commaJoin (tokensFrom (db qb) (placeholderCount qb) (length (Values qb))) @
                      '')'' @ returningText qb
                  | updateQry \<Rightarrow>
                      ''UPDATE '' @ table qb @ '' SET '' @
                      commaJoin (map2 (\<lambda>col tok. col @ ''='' @ tok) (columns qb)
                                   (tokensFrom (db qb) (placeholderCount qb) (length (Values qb)))) @
                      boundWhere (db qb) (placeholderCount qb + int (length (Values qb)))
                        (criteria qb) @
                      returningText qb
                  | deleteQry \<Rightarrow>
                      ''DELETE'' @ generateFromAndJoinClause qb @
                      boundWhere (db qb) (placeholderCount qb) (criteria qb) @
                      returningText qb), None),
                qb\<lparr>placeholderCount := placeholderCount qb + int (length (boundValues qb))\<rparr>)"
  proof (cases "queryType qb")
    case selectQry
    with filt have f: "\<forall>x\<in>set (criteria qb). valuesMatch x"
      "criteria qb \<noteq> [] \<longrightarrow> \<not> c_or (hd (criteria qb))"
      by simp_all
    from selectQry arity have a: "length (columns qb) = length (values qb)"
      by simp
    from generateWhereClause_bound_at [OF f, of "placeholderCount qb"]
    have w: "generateWhereClause qb =
               Inr ((boundWhere (db qb) (placeholderCount qb) (criteria qb), None),
                    qb\<lparr>placeholderCount := placeholderCount qb + int (length (Criteria qb))\<rparr>)"
      by (simp only: upd)
    show ?thesis
      using selectQry
      by (simp add: GenerateQuery_def generateSelectQry_def generateSelectClause_ok [OF a] w
            generateOrderByClause_counter generateLimitClause_counter boundValues_def)
  next
    case insertQry
    from insertQry arity have a: "length (columns qb) = length (values qb)"
      by simp
    from insertQry ret have r: "returningColumns qb = [] \<or>
        (db qb = POSTGRES \<or> db qb = ORACLE) \<and>
        length (returningColumns qb) = length (returnValues qb)"
      by simp
    show ?thesis
      using insertQry
      by (simp add: GenerateQuery_def generateInsertQry_def generateInsertClause_ok [OF a]
            generateReturningClause_ok [OF r] boundValues_def Values_def)
  next
    case updateQry
    with filt have f: "\<forall>x\<in>set (criteria qb). valuesMatch x"
      "criteria qb \<noteq> [] \<longrightarrow> \<not> c_or (hd (criteria qb))"
      by simp_all
    from updateQry arity have a: "length (columns qb) = length (values qb)"
      by simp
    from updateQry ret have r: "returningColumns qb = [] \<or>
        (db qb = POSTGRES \<or> db qb = ORACLE) \<and>
        length (returningColumns qb) = length (returnValues qb)"
      by simp
    note w = generateWhereClause_bound_at [OF f, of "placeholderCount qb + int (length (values qb))"]
    show ?thesis
      using updateQry
      by (simp add: GenerateQuery_def generateUpdateQry_def generateUpdateClause_ok [OF a] w
            generateReturningClause_ok [OF r] boundValues_def Values_def ac_simps)
  next
    case deleteQry
    with filt have f: "\<forall>x\<in>set (criteria qb). valuesMatch x"
      "criteria qb \<noteq> [] \<longrightarrow> \<not> c_or (hd (criteria qb))"
      by simp_all
    from deleteQry ret have r: "returningColumns qb = [] \<or>
        (db qb = POSTGRES \<or> db qb = ORACLE) \<and>
        length (returningColumns qb) = length (returnValues qb)"
      by simp
    from generateWhereClause_bound_at [OF f, of "placeholderCount qb"]
    have w: "generateWhereClause qb =
               Inr ((boundWhere (db qb) (placeholderCount qb) (criteria qb), None),
                    qb\<lparr>placeholderCount := placeholderCount qb + int (length (Criteria qb))\<rparr>)"
      by (simp only: upd)
    show ?thesis
      using deleteQry
      by (simp add: GenerateQuery_def generateDeleteQry_def generateDeleteClause_def w
            generateReturningClause_ok [OF r] boundValues_def)
  qed
  from gen tok show ?thesis
    by (rule conjI)
qed

theorem placeholders_follow_values_witness:
  "queryType (Where ''b'' ''between'' [5, 6] (Where ''c'' ''='' [3 :: int]
      (To [1, 2] (Set [''x'', ''y''] (ForPostgres (NewUpdate ''t'')))))) = updateQry \<and>
   GenerateQuery (Where ''b'' ''between'' [5, 6] (Where ''c'' ''='' [3 :: int]
      (To [1, 2] (Set [''x'', ''y''] (ForPostgres (NewUpdate ''t'')))))) =
     Inr ((''UPDATE t SET x=$1,y=$2 WHERE c=$3 AND b BETWEEN $4 AND $5'', None),
          (Where ''b'' ''between'' [5, 6] (Where ''c'' ''='' [3]
             (To [1, 2] (Set [''x'', ''y''] (ForPostgres (NewUpdate ''t''))))))
          \<lparr>placeholderCount := 5\<rparr>) \<and>
   boundValues (Where ''b'' ''between'' [5, 6] (Where ''c'' ''='' [3 :: int]
      (To [1, 2] (Set [''x'', ''y''] (ForPostgres (NewUpdate ''t'')))))) = [1, 2, 3, 5, 6] \<and>
   queryType (Into [7, 8] (Returning [''id'', ''field1''] (To [1, 2, 5, 4 :: int]
      (Set [''field1'', ''field2'', ''field3'', ''field4'']
         (ForPostgres (NewInsert ''table1'')))))) = insertQry \<and>
   GenerateQuery (Into [7, 8] (Returning [''id'', ''field1''] (To [1, 2, 5, 4 :: int]
      (Set [''field1'', ''field2'', ''field3'', ''field4'']
         (ForPostgres (NewInsert ''table1'')))))) =
     Inr ((''INSERT INTO table1 (field1,field2,field3,field4) VALUES ($1,$2,$3,$4)'' @
           '' RETURNING table1.id,table1.field1'', None),
          (Into [7, 8] (Returning [''id'', ''field1''] (To [1, 2, 5, 4]
             (Set [''field1'', ''field2'', ''field3'', ''field4'']
                (ForPostgres (NewInsert ''table1''))))))\<lparr>placeholderCount := 4\<rparr>) \<and>
   queryType (Where ''table1.field1'' ''='' [9] (Into [1, 2 :: int]
      (Select [''field1'', ''field2''] (NewSelect ''table1'')))) = selectQry \<and>
   GenerateQuery (Where ''table1.field1'' ''='' [9] (Into [1, 2 :: int]
      (Select [''field1'', ''field2''] (NewSelect ''table1'')))) =
     Inr ((''SELECT table1.field1,table1.field2 FROM table1 WHERE table1.field1=?'', None),
          (Where ''table1.field1'' ''='' [9] (Into [1, 2]
             (Select [''field1'', ''field2''] (NewSelect ''table1''))))\<lparr>placeholderCount := 1\<rparr>) \<and>
   queryType (Where ''b'' ''between'' [5, 6] (Where ''c'' ''='' [3 :: int]
      (ForOracle (NewDelete ''t'')))) = deleteQry \<and>
   GenerateQuery (Where ''b'' ''between'' [5, 6] (Where ''c'' ''='' [3 :: int]
      (ForOracle (NewDelete ''t'')))) =
     Inr ((''DELETE FROM t WHERE c=:1 AND b BETWEEN :2 AND :3'', None),
          (Where ''b'' ''between'' [5, 6] (Where ''c'' ''='' [3]
             (ForOracle (NewDelete ''t''))))\<lparr>placeholderCount := 3\<rparr>) \<and>
   (2 :: nat) < 3 \<and> tokensFrom POSTGRES 0 3 ! 2 = ''$3'' \<and>
   MYSQL \<noteq> POSTGRES \<and> MYSQL \<noteq> ORACLE \<and> token MYSQL 1 = ''?''"
proof -
  let ?c = "\<lparr>c_column = ''c'', c_operator = ''='', c_values = [3 :: int], c_or = False\<rparr>"
  let ?b = "\<lparr>c_column = ''b'', c_operator = ''BETWEEN'', c_values = [5, 6 :: int], c_or = False\<rparr>"
  let ?f = "\<lparr>c_column = ''table1.field1'', c_operator = ''='', c_values = [9 :: int],
              c_or = False\<rparr>"
  let ?qu = "Where ''b'' ''between'' [5, 6] (Where ''c'' ''='' [3 :: int]
               (To [1, 2] (Set [''x'', ''y''] (ForPostgres (NewUpdate ''t'')))))"
  let ?qi = "Into [7, 8] (Returning [''id'', ''field1''] (To [1, 2, 5, 4 :: int]
               (Set [''field1'', ''field2'', ''field3'', ''field4'']
                  (ForPostgres (NewInsert ''table1'')))))"
  let ?qs = "Where ''table1.field1'' ''='' [9] (Into [1, 2 :: int]
               (Select [''field1'', ''field2''] (NewSelect ''table1'')))"
  let ?qd = "Where ''b'' ''between'' [5, 6] (Where ''c'' ''='' [3 :: int]
               (ForOracle (NewDelete ''t'')))"
  note build = Where_def Into_def To_def Set_def ForPostgres_def ForOracle_def ForDatabase_def
    NewUpdate_def NewInsert_def NewSelect_def NewDelete_def newBuilder_def Let_def
    ToUpper_ascii_examples
  note render = generateFromAndJoinClause_def generateOrderByClause_def generateLimitClause_def
    returningText_def criterionText_def combinator_def token_def fmt_d_digits boundValues_def
    Values_def Criteria_def POSTGRES_def ORACLE_def
  have vm: "valuesMatch ?c" "valuesMatch ?b" "valuesMatch ?f"
    by (simp_all add: valuesMatch_def operatorIsValid_iff)
  have cu: "criteria ?qu = [?c, ?b]" and cd: "criteria ?qd = [?c, ?b]"
    and cs: "criteria ?qs = [?f]"
    by (simp_all add: build)
  have ku: "queryType ?qu = updateQry" and ki: "queryType ?qi = insertQry"
    and ks: "queryType ?qs = selectQry" and kd: "queryType ?qd = deleteQry"
    by (simp_all add: build)
  have u1: "queryType ?qu \<noteq> deleteQry \<longrightarrow> length (columns ?qu) = length (values ?qu)"
    by (simp add: build)
  have u2: "queryType ?qu \<noteq> insertQry \<longrightarrow>
              (\<forall>x\<in>set (criteria ?qu). valuesMatch x) \<and>
              (criteria ?qu \<noteq> [] \<longrightarrow> \<not> c_or (hd (criteria ?qu)))"
    unfolding cu using vm by simp
  have u3: "queryType ?qu \<noteq> selectQry \<longrightarrow>
              returningColumns ?qu = [] \<or>
              (db ?qu = POSTGRES \<or> db ?qu = ORACLE) \<and>
              length (returningColumns ?qu) = length (returnValues ?qu)"
    by (simp add: build)
  have u: "GenerateQuery ?qu =
     Inr ((''UPDATE t SET x=$1,y=$2 WHERE c=$3 AND b BETWEEN $4 AND $5'', None),
          ?qu\<lparr>placeholderCount := 5\<rparr>)"
    using placeholders_follow_values [OF u1 u2 u3, THEN conjunct1]
    unfolding cu ku by (simp add: render build)
  have ub: "boundValues ?qu = [1, 2, 3, 5, 6]"
    by (simp add: build boundValues_def Values_def Criteria_def)
  have i1: "queryType ?qi \<noteq> deleteQry \<longrightarrow> length (columns ?qi) = length (values ?qi)"
    by (simp add: build)
  have i2: "queryType ?qi \<noteq> insertQry \<longrightarrow>
              (\<forall>x\<in>set (criteria ?qi). valuesMatch x) \<and>
              (criteria ?qi \<noteq> [] \<longrightarrow> \<not> c_or (hd (criteria ?qi)))"
    by (simp add: build)
  have i3: "queryType ?qi \<noteq> selectQry \<longrightarrow>
              returningColumns ?qi = [] \<or>
              (db ?qi = POSTGRES \<or> db ?qi = ORACLE) \<and>
              length (returningColumns ?qi) = length (returnValues ?qi)"
    by (simp add: build)
  have i: "GenerateQuery ?qi =
     Inr ((''INSERT INTO table1 (field1,field2,field3,field4) VALUES ($1,$2,$3,$4)'' @
           '' RETURNING table1.id,table1.field1'', None), ?qi\<lparr>placeholderCount := 4\<rparr>)"
    using placeholders_follow_values [OF i1 i2 i3, THEN conjunct1]
    unfolding ki by (simp add: render build)
  have s1: "queryType ?qs \<noteq> deleteQry \<longrightarrow> length (columns ?qs) = length (values ?qs)"
    by (simp add: build)
  have s2: "queryType ?qs \<noteq> insertQry \<longrightarrow>
              (\<forall>x\<in>set (criteria ?qs). valuesMatch x) \<and>
              (criteria ?qs \<noteq> [] \<longrightarrow> \<not> c_or (hd (criteria ?qs)))"
    unfolding cs using vm by simp
  have s3: "queryType ?qs \<noteq> selectQry \<longrightarrow>
              returningColumns ?qs = [] \<or>
              (db ?qs = POSTGRES \<or> db ?qs = ORACLE) \<and>
              length (returningColumns ?qs) = length (returnValues ?qs)"
    by (simp add: build)
  have s: "GenerateQuery ?qs =
     Inr ((''SELECT table1.field1,table1.field2 FROM table1 WHERE table1.field1=?'', None),
          ?qs\<lparr>placeholderCount := 1\<rparr>)"
    using placeholders_follow_values [OF s1 s2 s3, THEN conjunct1]
    unfolding cs ks by (simp add: render build)
  have d1: "queryType ?qd \<noteq> deleteQry \<longrightarrow> length (columns ?qd) = length (values ?qd)"
    by (simp add: build)
  have d2: "queryType ?qd \<noteq> insertQry \<longrightarrow>
              (\<forall>x\<in>set (criteria ?qd). valuesMatch x) \<and>
              (criteria ?qd \<noteq> [] \<longrightarrow> \<not> c_or (hd (criteria ?qd)))"
    unfolding cd using vm by simp
  have d3: "queryType ?qd \<noteq> selectQry \<longrightarrow>
              returningColumns ?qd = [] \<or>
              (db ?qd = POSTGRES \<or> db ?qd = ORACLE) \<and>
              length (returningColumns ?qd) = length (returnValues ?qd)"
    by (simp add: build)
  have d: "GenerateQuery ?qd =
     Inr ((''DELETE FROM t WHERE c=:1 AND b BETWEEN :2 AND :3'', None),
          ?qd\<lparr>placeholderCount := 3\<rparr>)"
    using placeholders_follow_values [OF d1 d2 d3, THEN conjunct1]
    unfolding cd kd by (simp add: render build)
  have lt: "(2 :: nat) < 3"
    by simp
  have "tokensFrom POSTGRES 0 3 ! 2 = token POSTGRES (0 + int 2 + 1)"
    by (rule placeholders_follow_values [OF u1 u2 u3, where i = 2 and k = 3 and d = POSTGRES
               and n = 0, THEN conjunct2, THEN conjunct1, THEN mp, OF lt])
  then have t: "tokensFrom POSTGRES 0 3 ! 2 = ''$3''"
    by (simp add: token_def fmt_d_digits)
  have my: "MYSQL \<noteq> POSTGRES \<and> MYSQL \<noteq> ORACLE"
    by (simp add: MYSQL_def POSTGRES_def ORACLE_def)
  have q: "token MYSQL 1 = ''?''"
    by (rule placeholders_follow_values [OF u1 u2 u3, where d = MYSQL and n = 1,
               THEN conjunct2, THEN conjunct2, THEN conjunct2, THEN conjunct2, THEN mp, OF my])
  from ku u ub ki i ks s kd d lt t my q show ?thesis
    by blast
qed

text \<open>
  The claim as the specification has it, for every builder and every call, fails. A
  \<open>BETWEEN\<close> criterion with three values prints two tokens, so the token \<open>$3\<close> of the
  next criterion stands for the fourth bound value. And the counter is not reset: a second
  call on the same INSERT builder numbers its first token \<open>$2\<close>.
\<close>

theorem placeholders_follow_values_counterexample:
  "GenerateQuery (Where ''b'' ''='' [4] (Where ''a'' ''between'' [1, 2, 3 :: int]
      (ForPostgres (NewDelete ''t'')))) =
     Inr ((''DELETE FROM t WHERE a BETWEEN $1 AND $2 AND b=$3'', None),
          (Where ''b'' ''='' [4] (Where ''a'' ''between'' [1, 2, 3]
             (ForPostgres (NewDelete ''t''))))\<lparr>placeholderCount := 3\<rparr>) \<and>
   Criteria (Where ''b'' ''='' [4] (Where ''a'' ''between'' [1, 2, 3 :: int]
      (ForPostgres (NewDelete ''t'')))) = [1, 2, 3, 4] \<and>
   GenerateQuery (To [7 :: int] (Set [''a''] (ForPostgres (NewInsert ''t'')))) =
     Inr ((''INSERT INTO t (a) VALUES ($1)'', None),
          (To [7] (Set [''a''] (ForPostgres (NewInsert ''t''))))\<lparr>placeholderCount := 1\<rparr>) \<and>
   GenerateQuery ((To [7 :: int] (Set [''a''] (ForPostgres (NewInsert ''t''))))
                    \<lparr>placeholderCount := 1\<rparr>) =
     Inr ((''INSERT INTO t (a) VALUES ($2)'', None),
          (To [7] (Set [''a''] (ForPostgres (NewInsert ''t''))))\<lparr>placeholderCount := 2\<rparr>)"
  by (simp add: GenerateQuery_def generateDeleteQry_def generateInsertQry_def
        generateWhereClause_def generateDeleteClause_def generateFromAndJoinClause_def
        generateReturningClause_def generateInsertClause_def
        whereLoop.simps(2) Where_def To_def Set_def NewDelete_def NewInsert_def newBuilder_def
        ForPostgres_def ForDatabase_def ToUpper_ascii_examples operatorIsValid_iff
        addPlaceholder_def Criteria_def fmt_d_digits POSTGRES_def ORACLE_def Let_def)

section \<open>Column names with several separators\<close>




section \<open>IN without values\<close>

text \<open>
  How far the panic reaches: whenever the filter loop comes to a criterion with the
  operator \<open>IN\<close> and no value (the first criterion is not an OR and every criterion
  before this one passes), \<open>strings.Repeat\<close> gets the count \<open>-1\<close> and the clause does
  not return; neither does the whole call for a DELETE statement and for a SELECT or
  UPDATE statement whose columns and values match in number.
\<close>

lemma in_without_values_panics:
  assumes "criteria qb = pre @ c # post" and "\<forall>p\<in>set pre. passes p"
      and "\<not> c_or (hd (criteria qb))" and "c_operator c = ''IN''" and "c_values c = []"
  shows "generateWhereClause qb = Inl NegativeRepeatCount \<and>
         (queryType qb = deleteQry \<longrightarrow> GenerateQuery qb = Inl NegativeRepeatCount) \<and>
         ((queryType qb = selectQry \<or> queryType qb = updateQry) \<and>
          length (columns qb) = length (values qb) \<longrightarrow>
            GenerateQuery qb = Inl NegativeRepeatCount)"
proof -
  have valid: "operatorIsValid (c_operator c)"
    using assms(4) by (simp add: operatorIsValid_iff)
  have panic: "generateWhereClause b = Inl NegativeRepeatCount"
    if "criteria b = criteria qb" for b :: "'a Builder"
  proof -
    have first: "pre = [] \<Longrightarrow> \<not> c_or c"
    proof -
      assume "pre = []"
      with assms(1) have "hd (criteria qb) = c" by simp
      with assms(3) show "\<not> c_or c" by simp
    qed
    have "generateWhereClause b =
            whereLoop (b\<lparr>placeholderCount := placeholderCount b + sum_list (map allocs pre)\<rparr>)
              (int (length pre)) (c # post)
              (case pre of
                 [] \<Rightarrow> '' WHERE ''
               | p # ps \<Rightarrow> '' WHERE '' @ criterionText (db b) (placeholderCount b) p @
                          whereRest (db b) (placeholderCount b + allocs p) ps)"
      using assms(1,2,3) that by (intro whereLoop_reach) simp_all
    then show ?thesis
      using valid first assms(4,5)
      by (simp add: whereLoop.simps(2) addPlaceholder_eq Repeat_def)
  qed
  have w: "generateWhereClause qb = Inl NegativeRepeatCount"
    by (rule panic) simp
  have d: "GenerateQuery qb = Inl NegativeRepeatCount" if "queryType qb = deleteQry"
    using that w by (simp add: GenerateQuery_def generateDeleteQry_def)
  have su: "GenerateQuery qb = Inl NegativeRepeatCount"
    if "(queryType qb = selectQry \<or> queryType qb = updateQry) \<and>
        length (columns qb) = length (values qb)"
  proof -
    have "generateWhereClause
            (qb\<lparr>placeholderCount := placeholderCount qb + int (length (values qb))\<rparr>) =
          Inl NegativeRepeatCount"
      by (rule panic) simp
    with that w show ?thesis
      by (auto simp add: GenerateQuery_def generateSelectQry_def generateSelectClause_def
            generateUpdateQry_def generateUpdateClause_ok)
  qed
  from w d su show ?thesis
    by blast
qed

text \<open>
  Claim C4, evaluated. A DELETE builder with one \<open>IN\<close> criterion without values, and a
  SELECT builder with such a criterion behind a comparison, make \<open>GenerateQuery\<close>
  panic: no text with an empty list comes back. The INSERT clause, given no column and
  no value, does return its text with the two empty lists.
\<close>

theorem in_without_values_evaluated:
  "GenerateQuery (Where ''c'' ''in'' [] (NewDelete ''t'' :: int Builder)) = Inl NegativeRepeatCount \<and>
   GenerateQuery (Where ''b'' ''in'' [] (Where ''a'' ''='' [1 :: int] (NewSelect ''t''))) =
     Inl NegativeRepeatCount \<and>
   GenerateQuery (NewInsert ''t'' :: int Builder) =
     Inr ((''INSERT INTO t () VALUES ()'', None), NewInsert ''t'')"
  by (simp add: GenerateQuery_def generateDeleteQry_def generateSelectQry_def
        generateInsertQry_def generateSelectClause_def generateInsertClause_def
        generateReturningClause_def generateWhereClause_def whereLoop.simps(2) Where_def
        NewDelete_def NewSelect_def NewInsert_def newBuilder_def ToUpper_ascii_examples
        operatorIsValid_iff addPlaceholder_eq Repeat_def)

section \<open>Failing fast\<close>

text \<open>
  Claim C5. \<open>GenerateQuery\<close> returns an error exactly when one clause of the statement
  returns that error after every clause before it has returned none, and then the text
  it returns is empty: the first failing clause ends the call, no clause after it runs,
  and no text comes back with an error.
\<close>

theorem GenerateQuery_fail_fast:
  "GenerateQuery qb = Inr ((qry, Some err), qb') \<longleftrightarrow>
     qry = [] \<and>
     (case queryType qb of
        selectQry \<Rightarrow>
          (\<exists>q. generateSelectClause qb = (q, Some err)) \<and> qb' = qb
          \<or> snd (generateSelectClause qb) = None
            \<and> (\<exists>w. generateWhereClause qb = Inr ((w, Some err), qb'))
      | insertQry \<Rightarrow>
          (\<exists>q. generateInsertClause qb = ((q, Some err), qb'))
          \<or> (\<exists>q. generateInsertClause qb = ((q, None), qb'))
            \<and> (\<exists>r. generateReturningClause qb' = (r, Some err))
      | updateQry \<Rightarrow>
          (\<exists>q. generateUpdateClause qb = ((q, Some err), qb'))
          \<or> (\<exists>q qb1 w. generateUpdateClause qb = ((q, None), qb1)
                \<and> generateWhereClause qb1 = Inr ((w, Some err), qb'))
          \<or> (\<exists>q qb1 w r. generateUpdateClause qb = ((q, None), qb1)
                \<and> generateWhereClause qb1 = Inr ((w, None), qb')
                \<and> generateReturningClause qb' = (r, Some err))
      | deleteQry \<Rightarrow>
          (\<exists>w. generateWhereClause qb = Inr ((w, Some err), qb'))
          \<or> (\<exists>w r. generateWhereClause qb = Inr ((w, None), qb')
                \<and> generateReturningClause qb' = (r, Some err)))"
  by (cases "queryType qb")
     (auto simp add: GenerateQuery_def generateSelectQry_def generateInsertQry_def
        generateUpdateQry_def generateDeleteQry_def Let_def
        split: prod.splits option.splits sum.splits)

theorem GenerateQuery_fail_fast_witness:
  "generateWhereClause (Where ''table1.field1'' ''!='' [1 :: int] (NewDelete ''table1'')) =
     Inr (([], Some (ErrInvalidSqlOperator ''!=''
                       (''operator '' @ [CHR 0x27] @ ''!='' @ [CHR 0x27] @
                        '' is an invalid SQL operator''))),
          Where ''table1.field1'' ''!='' [1] (NewDelete ''table1'')) \<and>
   GenerateQuery (Where ''table1.field1'' ''!='' [1 :: int] (NewDelete ''table1'')) =
     Inr (([], Some (ErrInvalidSqlOperator ''!=''
                       (''operator '' @ [CHR 0x27] @ ''!='' @ [CHR 0x27] @
                        '' is an invalid SQL operator''))),
          Where ''table1.field1'' ''!='' [1] (NewDelete ''table1''))"
proof -
  let ?qb = "Where ''table1.field1'' ''!='' [1 :: int] (NewDelete ''table1'')"
  let ?err = "ErrInvalidSqlOperator ''!=''
                (''operator '' @ [CHR 0x27] @ ''!='' @ [CHR 0x27] @ '' is an invalid SQL operator'')"
  have up: "ToUpper ''!='' = ''!=''"
    by code_simp
  have w: "generateWhereClause ?qb = Inr (([], Some ?err), ?qb)"
    by (simp add: generateWhereClause_def whereLoop.simps(2) Where_def NewDelete_def
          newBuilder_def up operatorIsValid_def validOperators_def NewInvalidOperatorError_def)
  have qt: "queryType ?qb = deleteQry"
    by (simp add: Where_def NewDelete_def newBuilder_def)
  have "GenerateQuery ?qb = Inr (([], Some ?err), ?qb)"
    unfolding GenerateQuery_fail_fast using w qt by simp
  with w show ?thesis
    by blast
qed

section \<open>The RETURNING clause\<close>

text \<open>
  Claim C6. With no returning column the RETURNING clause is empty, whatever the dialect
  and the return values. With a returning column and a dialect other than Postgres and
  Oracle (MySQL, SQLite, the default) the clause fails with the unsupported-RETURNING
  error, whatever the counts. With a returning column, Postgres or Oracle, and as many
  return values as returning columns, the clause is \<open> RETURNING \<close> followed by the
  columns joined by commas. In an INSERT, UPDATE or DELETE statement that generates the
  text \<open>q\<close> when its returning columns are taken away, the unsupported dialect makes
  the whole call fail with that error, and Postgres or Oracle with matching counts make
  it return \<open>q\<close> with the clause appended.
\<close>

theorem generateReturningClause_contract:
  "(returningColumns qb = [] \<longrightarrow> generateReturningClause qb = ([], None)) \<and>
   (returningColumns qb \<noteq> [] \<and> db qb \<noteq> POSTGRES \<and> db qb \<noteq> ORACLE \<longrightarrow>
      generateReturningClause qb = ([], Some ErrDBEngineDoesNotSupportReturning) \<and>
      (queryType qb \<noteq> selectQry \<and>
       GenerateQuery (qb\<lparr>returningColumns := []\<rparr>) = Inr ((q, None), qb1) \<longrightarrow>
         GenerateQuery qb =
           Inr (([], Some ErrDBEngineDoesNotSupportReturning),
                qb1\<lparr>returningColumns := returningColumns qb\<rparr>))) \<and>
   (returningColumns qb \<noteq> [] \<and> (db qb = POSTGRES \<or> db qb = ORACLE) \<and>
    length (returningColumns qb) = length (returnValues qb) \<longrightarrow>
      generateReturningClause qb = ('' RETURNING '' @ commaJoin (returningColumns qb), None) \<and>
      (queryType qb \<noteq> selectQry \<and>
       GenerateQuery (qb\<lparr>returningColumns := []\<rparr>) = Inr ((q, None), qb1) \<longrightarrow>
         GenerateQuery qb =
           Inr ((q @ '' RETURNING '' @ commaJoin (returningColumns qb), None),
                qb1\<lparr>returningColumns := returningColumns qb\<rparr>)))"
proof (intro conjI impI)
  show "generateReturningClause qb = ([], None)" if "returningColumns qb = []"
    using that by (simp add: generateReturningClause_def)
next
  assume h: "returningColumns qb \<noteq> [] \<and> db qb \<noteq> POSTGRES \<and> db qb \<noteq> ORACLE"
  then show r: "generateReturningClause qb = ([], Some ErrDBEngineDoesNotSupportReturning)"
    by (simp add: generateReturningClause_def)
  show "GenerateQuery qb =
          Inr (([], Some ErrDBEngineDoesNotSupportReturning),
               qb1\<lparr>returningColumns := returningColumns qb\<rparr>)"
    if "queryType qb \<noteq> selectQry \<and>
        GenerateQuery (qb\<lparr>returningColumns := []\<rparr>) = Inr ((q, None), qb1)"
    using that r by (simp add: GenerateQuery_returning [of qb q qb1])
next
  assume h: "returningColumns qb \<noteq> [] \<and> (db qb = POSTGRES \<or> db qb = ORACLE) \<and>
             length (returningColumns qb) = length (returnValues qb)"
  then show r: "generateReturningClause qb =
                  ('' RETURNING '' @ commaJoin (returningColumns qb), None)"
    by (auto simp add: generateReturningClause_def columnsLoop_commaJoin)
  show "GenerateQuery qb =
          Inr ((q @ '' RETURNING '' @ commaJoin (returningColumns qb), None),
               qb1\<lparr>returningColumns := returningColumns qb\<rparr>)"
    if "queryType qb \<noteq> selectQry \<and>
        GenerateQuery (qb\<lparr>returningColumns := []\<rparr>) = Inr ((q, None), qb1)"
    using that r by (simp add: GenerateQuery_returning [of qb q qb1])
qed

theorem generateReturningClause_contract_witness:
  "returningColumns (ForOracle (NewDelete ''t'' :: int Builder)) = [] \<and>
   generateReturningClause (ForOracle (NewDelete ''t'' :: int Builder)) = ([], None) \<and>
   returningColumns (Returning [''id''] (To [1 :: int] (Set [''f''] (NewInsert ''t'')))) \<noteq> [] \<and>
   db (Returning [''id''] (To [1 :: int] (Set [''f''] (NewInsert ''t'')))) \<noteq> POSTGRES \<and>
   db (Returning [''id''] (To [1 :: int] (Set [''f''] (NewInsert ''t'')))) \<noteq> ORACLE \<and>
   generateReturningClause (Returning [''id''] (To [1 :: int] (Set [''f''] (NewInsert ''t'')))) =
     ([], Some ErrDBEngineDoesNotSupportReturning) \<and>
   GenerateQuery ((Returning [''id''] (To [1 :: int] (Set [''f''] (NewInsert ''t''))))
                    \<lparr>returningColumns := []\<rparr>) =
     Inr ((''INSERT INTO t (f) VALUES (?)'', None),
          (To [1] (Set [''f''] (NewInsert ''t'')))\<lparr>placeholderCount := 1\<rparr>) \<and>
   GenerateQuery (Returning [''id''] (To [1 :: int] (Set [''f''] (NewInsert ''t'')))) =
     Inr (([], Some ErrDBEngineDoesNotSupportReturning),
          (Returning [''id''] (To [1] (Set [''f''] (NewInsert ''t''))))\<lparr>placeholderCount := 1\<rparr>) \<and>
   db (Into [7, 8] (Returning [''id'', ''field1''] (To [1, 2 :: int] (Set [''field1'', ''field2'']
         (ForPostgres (NewInsert ''table1'')))))) = POSTGRES \<and>
   generateReturningClause
     (Into [7, 8] (Returning [''id'', ''field1''] (To [1, 2 :: int] (Set [''field1'', ''field2'']
         (ForPostgres (NewInsert ''table1'')))))) =
     ('' RETURNING table1.id,table1.field1'', None) \<and>
   GenerateQuery
     (Into [7, 8] (Returning [''id'', ''field1''] (To [1, 2 :: int] (Set [''field1'', ''field2'']
         (ForPostgres (NewInsert ''table1'')))))) =
     Inr ((''INSERT INTO table1 (field1,field2) VALUES ($1,$2) RETURNING table1.id,table1.field1'',
           None),
          (Into [7, 8] (Returning [''id'', ''field1''] (To [1, 2] (Set [''field1'', ''field2'']
             (ForPostgres (NewInsert ''table1''))))))\<lparr>placeholderCount := 2\<rparr>)"
proof -
  let ?e = "ForOracle (NewDelete ''t'' :: int Builder)"
  let ?m = "Returning [''id''] (To [1 :: int] (Set [''f''] (NewInsert ''t'')))"
  let ?p = "Into [7, 8] (Returning [''id'', ''field1''] (To [1, 2 :: int]
              (Set [''field1'', ''field2''] (ForPostgres (NewInsert ''table1'')))))"
  note defs = Into_def To_def Set_def NewInsert_def NewDelete_def newBuilder_def
    ForOracle_def ForPostgres_def ForDatabase_def Let_def
  note gen = GenerateQuery_def generateInsertQry_def generateInsertClause_def
    generateReturningClause_def addPlaceholder_def fmt_d_digits
  have e0: "returningColumns ?e = []"
    by (simp add: defs)
  have e: "generateReturningClause ?e = ([], None)"
    by (rule generateReturningClause_contract [where qb = ?e, THEN conjunct1, THEN mp, OF e0])
  have m0: "returningColumns ?m \<noteq> [] \<and> db ?m \<noteq> POSTGRES \<and> db ?m \<noteq> ORACLE"
    by (simp add: defs POSTGRES_def ORACLE_def)
  have mk: "queryType ?m \<noteq> selectQry"
    by (simp add: defs)
  have mg: "GenerateQuery (?m\<lparr>returningColumns := []\<rparr>) =
              Inr ((''INSERT INTO t (f) VALUES (?)'', None),
                   (To [1] (Set [''f''] (NewInsert ''t'')))\<lparr>placeholderCount := 1\<rparr>)"
    by (simp add: defs gen POSTGRES_def ORACLE_def)
  note m = generateReturningClause_contract [where qb = ?m
             and q = "''INSERT INTO t (f) VALUES (?)''"
             and ?qb1.0 = "(To [1] (Set [''f''] (NewInsert ''t'')))\<lparr>placeholderCount := 1\<rparr>",
             THEN conjunct2, THEN conjunct1, THEN mp, OF m0]
  have m1: "generateReturningClause ?m = ([], Some ErrDBEngineDoesNotSupportReturning)"
    by (rule m [THEN conjunct1])
  have "GenerateQuery ?m =
          Inr (([], Some ErrDBEngineDoesNotSupportReturning),
               (To [1] (Set [''f''] (NewInsert ''t'')))\<lparr>placeholderCount := 1\<rparr>
                 \<lparr>returningColumns := returningColumns ?m\<rparr>)"
    by (rule m [THEN conjunct2, THEN mp]) (rule conjI [OF mk mg])
  then have m2: "GenerateQuery ?m =
          Inr (([], Some ErrDBEngineDoesNotSupportReturning), ?m\<lparr>placeholderCount := 1\<rparr>)"
    by (simp add: defs)
  have p0: "returningColumns ?p \<noteq> [] \<and> (db ?p = POSTGRES \<or> db ?p = ORACLE) \<and>
            length (returningColumns ?p) = length (returnValues ?p)"
    by (simp add: defs)
  have pd: "db ?p = POSTGRES"
    by (simp add: defs)
  have pk: "queryType ?p \<noteq> selectQry"
    by (simp add: defs)
  let ?p1 = "(To [1, 2 :: int] (Set [''field1'', ''field2'']
                (ForPostgres (NewInsert ''table1''))))\<lparr>returnValues := [7, 8]\<rparr>
               \<lparr>placeholderCount := 2\<rparr>"
  have pg: "GenerateQuery (?p\<lparr>returningColumns := []\<rparr>) =
              Inr ((''INSERT INTO table1 (field1,field2) VALUES ($1,$2)'', None), ?p1)"
    by (simp add: defs gen POSTGRES_def ORACLE_def)
  note p = generateReturningClause_contract [where qb = ?p
             and q = "''INSERT INTO table1 (field1,field2) VALUES ($1,$2)''" and ?qb1.0 = ?p1,
             THEN conjunct2, THEN conjunct2, THEN mp, OF p0]
  have "generateReturningClause ?p = ('' RETURNING '' @ commaJoin (returningColumns ?p), None)"
    by (rule p [THEN conjunct1])
  then have p1: "generateReturningClause ?p = ('' RETURNING table1.id,table1.field1'', None)"
    by (simp add: defs)
  have "GenerateQuery ?p =
          Inr ((''INSERT INTO table1 (field1,field2) VALUES ($1,$2)'' @ '' RETURNING '' @
                  commaJoin (returningColumns ?p), None),
               ?p1\<lparr>returningColumns := returningColumns ?p\<rparr>)"
    by (rule p [THEN conjunct2, THEN mp]) (rule conjI [OF pk pg])
  then have p2: "GenerateQuery ?p =
     Inr ((''INSERT INTO table1 (field1,field2) VALUES ($1,$2) RETURNING table1.id,table1.field1'',
           None), ?p\<lparr>placeholderCount := 2\<rparr>)"
    by (simp add: defs)
  from e0 e m0 m1 mg m2 pd p1 p2 show ?thesis
    by blast
qed

section \<open>Column and value counts\<close>

text \<open>
  Claim C7. When the number of columns differs from the number of values, a SELECT, an
  INSERT and an UPDATE statement return the empty text and the arity error holding the
  two counts; no placeholder is allocated.
\<close>

theorem arity_mismatch:
  assumes "queryType qb \<noteq> deleteQry"
      and "length (columns qb) \<noteq> length (values qb)"
  shows "GenerateQuery qb =
           Inr (([], Some (ErrBadColumnsValuesCombo
                             (int (length (columns qb))) (int (length (values qb)))
                             (''columns count ('' @ fmt_d (int (length (columns qb))) @
                              '') must be equal to values count ('' @
                              fmt_d (int (length (values qb))) @ '')''))), qb)"
  using assms
  by (cases "queryType qb")
     (simp_all add: GenerateQuery_def generateSelectQry_def generateInsertQry_def
        generateUpdateQry_def generateSelectClause_def generateInsertClause_def
        generateUpdateClause_def NewBadColumnsValuesComboError_def)

theorem arity_mismatch_witness:
  "queryType (To [1, 2, 5 :: int] (Set [''field1'', ''field2'', ''field3'', ''field4'']
      (NewUpdate ''table1''))) \<noteq> deleteQry \<and>
   length (columns (To [1, 2, 5 :: int] (Set [''field1'', ''field2'', ''field3'', ''field4'']
      (NewUpdate ''table1'')))) \<noteq>
   length (values (To [1, 2, 5 :: int] (Set [''field1'', ''field2'', ''field3'', ''field4'']
      (NewUpdate ''table1'')))) \<and>
   GenerateQuery (To [1, 2, 5 :: int] (Set [''field1'', ''field2'', ''field3'', ''field4'']
      (NewUpdate ''table1''))) =
     Inr (([], Some (ErrBadColumnsValuesCombo 4 3
                       ''columns count (4) must be equal to values count (3)'')),
          To [1, 2, 5] (Set [''field1'', ''field2'', ''field3'', ''field4'']
            (NewUpdate ''table1'')))"
  using arity_mismatch [of "To [1, 2, 5 :: int]
          (Set [''field1'', ''field2'', ''field3'', ''field4''] (NewUpdate ''table1''))"]
  by (simp add: To_def Set_def NewUpdate_def newBuilder_def fmt_d_def decimal.simps digit_def)

section \<open>The operator list\<close>

text \<open>
  Claim C8. An operator is valid exactly when it is one of the nine of the specification.
  When the filter loop reaches a criterion whose operator is not one of them (the first
  criterion is not an OR and every criterion before this one passes), the clause fails
  with the invalid-operator error holding that operator, as stored, and so does the whole
  call for a DELETE statement and for a SELECT or UPDATE statement whose columns and
  values match in number. And the clause returns an invalid-operator error only for an
  operator that is not one of the nine and is the operator of one of the criteria.
\<close>

theorem operator_whitelist:
  "(operatorIsValid operator \<longleftrightarrow> operator \<in> set whitelist) \<and>
   (criteria qb = pre @ c # post \<and> (\<forall>p\<in>set pre. passes p) \<and> \<not> c_or (hd (criteria qb)) \<and>
    c_operator c \<notin> set whitelist \<longrightarrow>
      generateWhereClause qb =
        Inr (([], Some (ErrInvalidSqlOperator (c_operator c)
                          (''operator '' @ [CHR 0x27] @ c_operator c @ [CHR 0x27] @
                           '' is an invalid SQL operator''))),
             qb\<lparr>placeholderCount := placeholderCount qb + sum_list (map allocs pre)\<rparr>) \<and>
      (queryType qb = deleteQry \<or>
       queryType qb = selectQry \<and> length (columns qb) = length (values qb) \<longrightarrow>
         GenerateQuery qb =
           Inr (([], Some (NewInvalidOperatorError (c_operator c))),
                qb\<lparr>placeholderCount := placeholderCount qb + sum_list (map allocs pre)\<rparr>)) \<and>
      (queryType qb = updateQry \<and> length (columns qb) = length (values qb) \<longrightarrow>
         GenerateQuery qb =
           Inr (([], Some (NewInvalidOperatorError (c_operator c))),
                qb\<lparr>placeholderCount := placeholderCount qb + int (length (values qb)) +
                                        sum_list (map allocs pre)\<rparr>))) \<and>
   (generateWhereClause qb = Inr ((q, Some (ErrInvalidSqlOperator operator m)), qb') \<longrightarrow>
      operator \<notin> set whitelist \<and> (\<exists>x\<in>set (criteria qb). c_operator x = operator))"
proof (intro conjI impI)
  show "operatorIsValid operator \<longleftrightarrow> operator \<in> set whitelist"
    by (rule operatorIsValid_whitelist)
next
  assume h: "criteria qb = pre @ c # post \<and> (\<forall>p\<in>set pre. passes p) \<and>
             \<not> c_or (hd (criteria qb)) \<and> c_operator c \<notin> set whitelist"
  then have h1: "criteria qb = pre @ c # post" and h2: "\<forall>p\<in>set pre. passes p"
    and h3: "\<not> c_or (hd (criteria qb))" and h5: "c_operator c \<notin> set whitelist"
    by blast+
  from h5 have h4: "\<not> operatorIsValid (c_operator c)"
    by (simp add: operatorIsValid_whitelist)
  have w: "generateWhereClause b =
             Inr (([], Some (NewInvalidOperatorError (c_operator c))),
                  b\<lparr>placeholderCount := placeholderCount b + sum_list (map allocs pre)\<rparr>)"
    if "criteria b = criteria qb" for b :: "'a Builder"
    using that h1 h2 h3 h4 by (intro generateWhereClause_invalid) simp_all
  from w [of qb] show "generateWhereClause qb =
        Inr (([], Some (ErrInvalidSqlOperator (c_operator c)
                          (''operator '' @ [CHR 0x27] @ c_operator c @ [CHR 0x27] @
                           '' is an invalid SQL operator''))),
             qb\<lparr>placeholderCount := placeholderCount qb + sum_list (map allocs pre)\<rparr>)"
    by (simp add: NewInvalidOperatorError_def)
  show "GenerateQuery qb =
          Inr (([], Some (NewInvalidOperatorError (c_operator c))),
               qb\<lparr>placeholderCount := placeholderCount qb + sum_list (map allocs pre)\<rparr>)"
    if "queryType qb = deleteQry \<or>
        queryType qb = selectQry \<and> length (columns qb) = length (values qb)"
    using that w [of qb]
    by (auto simp add: GenerateQuery_def generateDeleteQry_def generateSelectQry_def
          generateSelectClause_def)
  show "GenerateQuery qb =
          Inr (([], Some (NewInvalidOperatorError (c_operator c))),
               qb\<lparr>placeholderCount := placeholderCount qb + int (length (values qb)) +
                                       sum_list (map allocs pre)\<rparr>)"
    if "queryType qb = updateQry \<and> length (columns qb) = length (values qb)"
    using that w [of "qb\<lparr>placeholderCount := placeholderCount qb + int (length (values qb))\<rparr>"]
    by (simp add: GenerateQuery_def generateUpdateQry_def generateUpdateClause_ok)
next
  assume r: "generateWhereClause qb = Inr ((q, Some (ErrInvalidSqlOperator operator m)), qb')"
  then have "whereLoop qb 0 (criteria qb) '' WHERE '' =
               Inr ((q, Some (ErrInvalidSqlOperator operator m)), qb')"
    by (simp add: generateWhereClause_def split: if_splits)
  from whereLoop_invalid_operator [OF this]
  show "operator \<notin> set whitelist" and "\<exists>x\<in>set (criteria qb). c_operator x = operator"
    by (simp_all add: operatorIsValid_whitelist)
qed

theorem operator_whitelist_witness:
  "criteria (Where ''table1.field2'' ''ins'' [1, 2, 3 :: int]
      (Where ''table1.field1'' ''='' [0] (NewSelect ''table1''))) =
     [\<lparr>c_column = ''table1.field1'', c_operator = ''='', c_values = [0], c_or = False\<rparr>] @
     \<lparr>c_column = ''table1.field2'', c_operator = ''INS'', c_values = [1, 2, 3], c_or = False\<rparr> # [] \<and>
   passes \<lparr>c_column = ''table1.field1'', c_operator = ''='', c_values = [0 :: int], c_or = False\<rparr> \<and>
   operatorIsValid ''<>'' \<and> \<not> operatorIsValid ''!='' \<and> ''INS'' \<notin> set whitelist \<and>
   generateWhereClause (Where ''table1.field2'' ''ins'' [1, 2, 3 :: int]
      (Where ''table1.field1'' ''='' [0] (NewSelect ''table1''))) =
     Inr (([], Some (ErrInvalidSqlOperator ''INS''
                       (''operator '' @ [CHR 0x27] @ ''INS'' @ [CHR 0x27] @
                        '' is an invalid SQL operator''))),
          (Where ''table1.field2'' ''ins'' [1, 2, 3]
            (Where ''table1.field1'' ''='' [0] (NewSelect ''table1'')))\<lparr>placeholderCount := 1\<rparr>) \<and>
   GenerateQuery (Where ''table1.field2'' ''ins'' [1, 2, 3 :: int]
      (Where ''table1.field1'' ''='' [0] (NewSelect ''table1''))) =
     Inr (([], Some (ErrInvalidSqlOperator ''INS''
                       (''operator '' @ [CHR 0x27] @ ''INS'' @ [CHR 0x27] @
                        '' is an invalid SQL operator''))),
          (Where ''table1.field2'' ''ins'' [1, 2, 3]
            (Where ''table1.field1'' ''='' [0] (NewSelect ''table1'')))\<lparr>placeholderCount := 1\<rparr>)"
proof -
  let ?c1 = "\<lparr>c_column = ''table1.field1'', c_operator = ''='', c_values = [0 :: int],
               c_or = False\<rparr>"
  let ?c2 = "\<lparr>c_column = ''table1.field2'', c_operator = ''INS'', c_values = [1, 2, 3 :: int],
               c_or = False\<rparr>"
  let ?qb = "Where ''table1.field2'' ''ins'' [1, 2, 3 :: int]
               (Where ''table1.field1'' ''='' [0] (NewSelect ''table1''))"
  let ?err = "ErrInvalidSqlOperator ''INS''
                (''operator '' @ [CHR 0x27] @ ''INS'' @ [CHR 0x27] @ '' is an invalid SQL operator'')"
  note w = operator_whitelist [where qb = ?qb and pre = "[?c1]" and c = ?c2 and post = "[]"]
  have valid: "operatorIsValid ''<>''" and invalid: "\<not> operatorIsValid ''!=''"
    and eq: "operatorIsValid ''=''"
    using w [where operator = "''<>''"] w [where operator = "''!=''"] w [where operator = "''=''"]
    by (simp_all add: whitelist_def)
  have crit: "criteria ?qb = [?c1] @ ?c2 # []"
    by (simp add: Where_def NewSelect_def newBuilder_def ToUpper_ascii_examples)
  have p: "passes ?c1"
    using eq by (simp add: passes_def)
  have first: "\<not> c_or (hd (criteria ?qb))"
    unfolding crit by simp
  have op: "c_operator ?c2 \<notin> set whitelist"
    by (simp add: whitelist_def)
  have kind: "queryType ?qb = deleteQry \<or>
              queryType ?qb = selectQry \<and> length (columns ?qb) = length (values ?qb)"
    by (simp add: Where_def NewSelect_def newBuilder_def)
  have reach: "criteria ?qb = [?c1] @ ?c2 # [] \<and> (\<forall>p\<in>set [?c1]. passes p) \<and>
               \<not> c_or (hd (criteria ?qb)) \<and> c_operator ?c2 \<notin> set whitelist"
    using crit p first op by simp
  note r = w [THEN conjunct2, THEN conjunct1, THEN mp, OF reach]
  have "generateWhereClause ?qb = Inr (([], Some ?err), ?qb\<lparr>placeholderCount := 1\<rparr>)"
    using r [THEN conjunct1]
    by (simp add: allocs_def Where_def NewSelect_def newBuilder_def)
  moreover have "GenerateQuery ?qb = Inr (([], Some ?err), ?qb\<lparr>placeholderCount := 1\<rparr>)"
    using r [THEN conjunct2, THEN conjunct1, THEN mp, OF kind]
    by (simp add: allocs_def Where_def NewSelect_def newBuilder_def NewInvalidOperatorError_def)
  moreover have "''INS'' \<notin> set whitelist"
    using op by simp
  ultimately show ?thesis
    using crit p valid invalid by blast
qed

section \<open>The first criterion and the combinators\<close>

text \<open>
  Claim C9. When the first criterion is an OR, the filter clause returns the empty text
  and the first-criterion-is-OR error and leaves the builder as it was, and the whole
  call returns the same for a DELETE statement and for a SELECT or UPDATE statement
  whose columns and values match in number (the UPDATE has by then allocated the
  placeholders of its SET clause). When the first criterion is not an OR and every criterion
  passes, the text is \<open> WHERE \<close>, the first criterion with no combinator token
  before it, then every later criterion behind its own token, \<open> OR \<close> or
  \<open> AND \<close>.
\<close>

theorem first_criterion_or_and_combinators:
  "(criteria qb = c # cs \<and> c_or c \<longrightarrow>
      generateWhereClause qb = Inr (([], Some ErrFirstCriterionIsOr), qb) \<and>
      (queryType qb = deleteQry \<longrightarrow>
         GenerateQuery qb = Inr (([], Some ErrFirstCriterionIsOr), qb)) \<and>
      (queryType qb = selectQry \<and> length (columns qb) = length (values qb) \<longrightarrow>
         GenerateQuery qb = Inr (([], Some ErrFirstCriterionIsOr), qb)) \<and>
      (queryType qb = updateQry \<and> length (columns qb) = length (values qb) \<longrightarrow>
         GenerateQuery qb =
           Inr (([], Some ErrFirstCriterionIsOr),
                qb\<lparr>placeholderCount := placeholderCount qb + int (length (values qb))\<rparr>))) \<and>
   (criteria qb = c # cs \<and> \<not> c_or c \<and> (\<forall>x\<in>set (c # cs). passes x) \<longrightarrow>
      generateWhereClause qb =
        Inr (('' WHERE '' @ criterionText (db qb) (placeholderCount qb) c @
                whereRest (db qb) (placeholderCount qb + allocs c) cs, None),
             qb\<lparr>placeholderCount := placeholderCount qb + allocs c + sum_list (map allocs cs)\<rparr>))"
proof (intro conjI impI)
  assume h: "criteria qb = c # cs \<and> c_or c"
  then show w: "generateWhereClause qb = Inr (([], Some ErrFirstCriterionIsOr), qb)"
    by (simp add: generateWhereClause_first_or)
  show "GenerateQuery qb = Inr (([], Some ErrFirstCriterionIsOr), qb)"
    if "queryType qb = deleteQry"
    using that w by (simp add: GenerateQuery_def generateDeleteQry_def)
  show "GenerateQuery qb = Inr (([], Some ErrFirstCriterionIsOr), qb)"
    if "queryType qb = selectQry \<and> length (columns qb) = length (values qb)"
    using that w by (simp add: GenerateQuery_def generateSelectQry_def generateSelectClause_def)
  show "GenerateQuery qb =
          Inr (([], Some ErrFirstCriterionIsOr),
               qb\<lparr>placeholderCount := placeholderCount qb + int (length (values qb))\<rparr>)"
    if u: "queryType qb = updateQry \<and> length (columns qb) = length (values qb)"
  proof -
    let ?qb1 = "qb\<lparr>placeholderCount := placeholderCount qb + int (length (values qb))\<rparr>"
    have "generateWhereClause ?qb1 = Inr (([], Some ErrFirstCriterionIsOr), ?qb1)"
      using h by (intro generateWhereClause_first_or [of _ c cs]) simp_all
    with u show ?thesis
      by (simp add: GenerateQuery_def generateUpdateQry_def generateUpdateClause_ok)
  qed
next
  assume "criteria qb = c # cs \<and> \<not> c_or c \<and> (\<forall>x\<in>set (c # cs). passes x)"
  then show "generateWhereClause qb =
        Inr (('' WHERE '' @ criterionText (db qb) (placeholderCount qb) c @
                whereRest (db qb) (placeholderCount qb + allocs c) cs, None),
             qb\<lparr>placeholderCount := placeholderCount qb + allocs c + sum_list (map allocs cs)\<rparr>)"
    by (intro generateWhereClause_passes) blast+
qed

theorem first_criterion_or_and_combinators_witness:
  "criteria (OrWhere ''table1.field1'' ''='' [1 :: int] (NewDelete ''table1'')) =
     \<lparr>c_column = ''table1.field1'', c_operator = ''='', c_values = [1], c_or = True\<rparr> # [] \<and>
   generateWhereClause (OrWhere ''table1.field1'' ''='' [1 :: int] (NewDelete ''table1'')) =
     Inr (([], Some ErrFirstCriterionIsOr), OrWhere ''table1.field1'' ''='' [1] (NewDelete ''table1'')) \<and>
   GenerateQuery (OrWhere ''table1.field1'' ''='' [1 :: int] (NewDelete ''table1'')) =
     Inr (([], Some ErrFirstCriterionIsOr), OrWhere ''table1.field1'' ''='' [1] (NewDelete ''table1'')) \<and>
   generateWhereClause
     (OrWhere ''c'' ''BETWEEN'' [5, 6] (Where ''b'' ''IN'' [1, 2, 3, 4]
        (Where ''a'' ''='' [0 :: int] (NewSelect ''t'')))) =
     Inr (('' WHERE a=? AND b IN (?,?,?,?) OR c BETWEEN ? AND ?'', None),
          (OrWhere ''c'' ''BETWEEN'' [5, 6] (Where ''b'' ''IN'' [1, 2, 3, 4]
             (Where ''a'' ''='' [0] (NewSelect ''t''))))\<lparr>placeholderCount := 5\<rparr>)"
proof -
  let ?o = "\<lparr>c_column = ''table1.field1'', c_operator = ''='', c_values = [1 :: int], c_or = True\<rparr>"
  let ?qo = "OrWhere ''table1.field1'' ''='' [1 :: int] (NewDelete ''table1'')"
  let ?a = "\<lparr>c_column = ''a'', c_operator = ''='', c_values = [0 :: int], c_or = False\<rparr>"
  let ?b = "\<lparr>c_column = ''b'', c_operator = ''IN'', c_values = [1, 2, 3, 4 :: int], c_or = False\<rparr>"
  let ?c = "\<lparr>c_column = ''c'', c_operator = ''BETWEEN'', c_values = [5, 6 :: int], c_or = True\<rparr>"
  let ?qb = "OrWhere ''c'' ''BETWEEN'' [5, 6] (Where ''b'' ''IN'' [1, 2, 3, 4]
               (Where ''a'' ''='' [0 :: int] (NewSelect ''t'')))"
  have co: "criteria ?qo = ?o # []"
    by (simp add: OrWhere_def NewDelete_def newBuilder_def ToUpper_ascii_examples)
  have qt: "queryType ?qo = deleteQry"
    by (simp add: OrWhere_def NewDelete_def newBuilder_def)
  note o = first_criterion_or_and_combinators [where qb = ?qo and c = ?o and cs = "[]",
             THEN conjunct1, THEN mp]
  have o1: "generateWhereClause ?qo = Inr (([], Some ErrFirstCriterionIsOr), ?qo)"
    and o2: "GenerateQuery ?qo = Inr (([], Some ErrFirstCriterionIsOr), ?qo)"
    using o co qt by simp_all
  have cq: "criteria ?qb = ?a # [?b, ?c]"
    by (simp add: OrWhere_def Where_def NewSelect_def newBuilder_def ToUpper_ascii_examples)
  have pass: "\<forall>x\<in>set (?a # [?b, ?c]). passes x"
    by (simp add: passes_def operatorIsValid_iff)
  have "generateWhereClause ?qb =
          Inr (('' WHERE '' @ criterionText (db ?qb) (placeholderCount ?qb) ?a @
                  whereRest (db ?qb) (placeholderCount ?qb + allocs ?a) [?b, ?c], None),
               ?qb\<lparr>placeholderCount :=
                      placeholderCount ?qb + allocs ?a + sum_list (map allocs [?b, ?c])\<rparr>)"
  proof (rule first_criterion_or_and_combinators [where qb = ?qb and c = ?a and cs = "[?b, ?c]",
             THEN conjunct2, THEN mp], intro conjI)
    show "\<not> c_or ?a" by simp
  qed (rule cq pass)+
  then have "generateWhereClause ?qb =
     Inr (('' WHERE a=? AND b IN (?,?,?,?) OR c BETWEEN ? AND ?'', None),
          ?qb\<lparr>placeholderCount := 5\<rparr>)"
    by (simp add: criterionText_def combinator_def allocs_def token_def POSTGRES_def ORACLE_def
          OrWhere_def Where_def NewSelect_def newBuilder_def)
  with co o1 o2 show ?thesis
    by blast
qed

section \<open>The empty projection\<close>

text \<open>
  Claim C10, as amended. A SELECT builder with no column, no value, no join, no
  criterion, no order and limit 0 generates \<open>SELECT  FROM t\<close> with no error: the empty
  projection passes the arity check and leaves two spaces.
\<close>

theorem select_empty_projection:
  assumes "queryType qb = selectQry" and "columns qb = []" and "values qb = []"
      and "joinTables qb = []" and "criteria qb = []" and "orderBy qb = []" and "limit qb = 0"
  shows "GenerateQuery qb = Inr ((''SELECT  FROM '' @ table qb, None), qb)"
  using assms
  by (simp add: GenerateQuery_def generateSelectQry_def generateSelectClause_def
        generateFromAndJoinClause_def generateWhereClause_def generateOrderByClause_def
        generateLimitClause_def)

theorem select_empty_projection_witness:
  "queryType (NewSelect ''t'' :: unit Builder) = selectQry \<and>
   columns (NewSelect ''t'' :: unit Builder) = [] \<and>
   values (NewSelect ''t'' :: unit Builder) = [] \<and>
   joinTables (NewSelect ''t'' :: unit Builder) = [] \<and>
   criteria (NewSelect ''t'' :: unit Builder) = [] \<and>
   orderBy (NewSelect ''t'' :: unit Builder) = [] \<and>
   limit (NewSelect ''t'' :: unit Builder) = 0 \<and>
   GenerateQuery (NewSelect ''t'' :: unit Builder) =
     Inr ((''SELECT  FROM t'', None), NewSelect ''t'')"
  using select_empty_projection [of "NewSelect ''t'' :: unit Builder"]
  by (simp add: NewSelect_def newBuilder_def)

text \<open>
  Without the condition on the joins the statement fails: a builder made by
  \<open>NewSelect\<close> and one call of \<open>Join\<close> has no column, value, criterion or order and
  limit 0, and its text goes on with the join.
\<close>

theorem select_join_counterexample:
  "queryType (Join ''LEFT'' ''t2'' ''a'' ''b'' (NewSelect ''t'' :: unit Builder)) = selectQry \<and>
   columns (Join ''LEFT'' ''t2'' ''a'' ''b'' (NewSelect ''t'' :: unit Builder)) = [] \<and>
   values (Join ''LEFT'' ''t2'' ''a'' ''b'' (NewSelect ''t'' :: unit Builder)) = [] \<and>
   criteria (Join ''LEFT'' ''t2'' ''a'' ''b'' (NewSelect ''t'' :: unit Builder)) = [] \<and>
   orderBy (Join ''LEFT'' ''t2'' ''a'' ''b'' (NewSelect ''t'' :: unit Builder)) = [] \<and>
   limit (Join ''LEFT'' ''t2'' ''a'' ''b'' (NewSelect ''t'' :: unit Builder)) = 0 \<and>
   GenerateQuery (Join ''LEFT'' ''t2'' ''a'' ''b'' (NewSelect ''t'' :: unit Builder)) =
     Inr ((''SELECT  FROM t LEFT JOIN t2 ON a=b'', None),
          Join ''LEFT'' ''t2'' ''a'' ''b'' (NewSelect ''t''))"
  by (simp add: GenerateQuery_def generateSelectQry_def generateSelectClause_def
        generateFromAndJoinClause_def generateWhereClause_def generateOrderByClause_def
        generateLimitClause_def NewSelect_def newBuilder_def Join_def)

end
